theory Spec2Isabelle
  imports Main "HOL-Library.Word"
begin

section \<open>The fleetd device agent (fleetd_agent.py): data\<close>

text \<open>
  The agent is a Python class whose methods talk to a server, to the operating system and
  to the file system. The embedding threads a \<open>world\<close> (the agent object, the files it
  writes and the list of outward actions it has attempted) through every method, and takes
  the outcome of every outward action from an \<open>env\<close>, over which the theorems quantify.
  A Python exception is a value \<open>Exn kind text\<close>, where \<open>exn_text\<close> is \<open>str(e)\<close>.
\<close>

type_synonym byte = "8 word"

datatype json =
    JNull
  | JBool bool
  | JInt int
  | JStr string
  | JList "json list"
  | JObj "(string \<times> json) list"

datatype exn = Exn (exn_kind: string) (exn_text: string)

text \<open>Python truthiness, as \<open>if x:\<close> tests it.\<close>

fun truthy :: "json \<Rightarrow> bool" where
  "truthy JNull = False"
| "truthy (JBool b) = b"
| "truthy (JInt i) = (i \<noteq> 0)"
| "truthy (JStr s) = (s \<noteq> [])"
| "truthy (JList xs) = (xs \<noteq> [])"
| "truthy (JObj kvs) = (kvs \<noteq> [])"

fun py_type :: "json \<Rightarrow> string" where
  "py_type JNull = ''NoneType''"
| "py_type (JBool b) = ''bool''"
| "py_type (JInt i) = ''int''"
| "py_type (JStr s) = ''str''"
| "py_type (JList xs) = ''list''"
| "py_type (JObj kvs) = ''dict''"

text \<open>\<open>d[key]\<close> on a dict: KeyError, whose \<open>str\<close> is the \<open>repr\<close> of the key.\<close>

definition py_getitem :: "(string \<times> json) list \<Rightarrow> string \<Rightarrow> exn + json" where
  "py_getitem d k =
     (case map_of d k of
        None \<Rightarrow> Inl (Exn ''KeyError'' ([CHR 0x27] @ k @ [CHR 0x27]))
      | Some v \<Rightarrow> Inr v)"

text \<open>\<open>d.get(key, default)\<close> on a dict.\<close>

definition dict_get :: "(string \<times> json) list \<Rightarrow> string \<Rightarrow> json \<Rightarrow> json" where
  "dict_get d k dflt = (case map_of d k of None \<Rightarrow> dflt | Some v \<Rightarrow> v)"

text \<open>\<open>x.get(key, default)\<close> on any value: only a dict has the method.\<close>

definition py_get :: "json \<Rightarrow> string \<Rightarrow> json \<Rightarrow> exn + json" where
  "py_get x k dflt =
     (case x of
        JObj d \<Rightarrow> Inr (dict_get d k dflt)
      | _ \<Rightarrow> Inl (Exn ''AttributeError''
                 ([CHR 0x27] @ py_type x @ [CHR 0x27] @ '' object has no attribute '' @
                  [CHR 0x27] @ ''get'' @ [CHR 0x27])))"

subsection \<open>Outward actions\<close>

text \<open>
  Every call that leaves the process is an event, in the order the agent attempts it. A
  request carries the body the agent built; the identifier that the source formats into
  the URL is kept as the value it is.
\<close>

datatype event =
    AckPost json "(string \<times> json) list"
  | StatusPost json "(string \<times> json) list"
  | LogsPost string
  | EnrollPost "(string \<times> json) list"
  | HeartbeatPost
  | TelemetryPost
  | CommandsGet
  | SystemPut json
  | DownloadGet json
  | Subprocess "string list" bool
  | Shell json json
  | Journalctl json
  | Sleep nat
  | MakeDirs string
  | OpenWrite string
  | Write string "byte list"
  | OpenRead string
  | SaveCredentials "(string \<times> json) list"
  | Chmod string
  | Install string
  | SpawnThreads

datatype header = NoHeader | IntHeader int | BadHeader string

record download =
  dl_content_length :: header
  dl_chunks :: "byte list list"
  dl_broken :: "exn option"

datatype stored = Unparseable | Parsed json

record AgentConfig =
  device_token :: json
  hardware_id :: "string option"
  heartbeat_interval :: int
  telemetry_interval :: int
  command_poll_interval :: int
  enrollment_token :: "string option"
  device_type :: string

record world =
  trace :: "event list"
  files :: "string \<rightharpoonup> byte list"
  credentials_file :: "stored option"
  config :: AgentConfig
  device_id :: json
  session_headers :: "string \<rightharpoonup> json"
  running :: bool
  command_queue :: "string list"

text \<open>
  The environment answers the \<open>n\<close>-th action attempted (\<open>n\<close> counts from 0): whether it
  raises, and what it returns when the agent reads the result. \<open>sha256_hexdigest\<close> stands for
  \<open>hashlib.sha256(...).hexdigest()\<close> and \<open>repr_container\<close> for Python's \<open>str\<close> of a list or a
  dict; both belong to the Python library, not to the agent. \<open>system_info\<close>, \<open>utcnow\<close> and
  \<open>hardware_serial\<close> are what \<open>_get_system_info\<close>, \<open>datetime.utcnow().isoformat()\<close> and
  \<open>_get_hardware_id\<close> return on the device.
\<close>

record env =
  fault :: "nat \<Rightarrow> exn option"
  status_code :: "nat \<Rightarrow> nat"
  json_body :: "nat \<Rightarrow> exn + json"
  shell_result :: "nat \<Rightarrow> string \<times> string \<times> int"
  check_output :: "nat \<Rightarrow> string"
  download_reply :: "nat \<Rightarrow> download"
  sha256_hexdigest :: "byte list \<Rightarrow> string"
  repr_container :: "json \<Rightarrow> string"
  system_info :: json
  utcnow :: string
  hardware_serial :: string

subsection \<open>Computations that change the world and may raise\<close>

type_synonym 'a prog = "world \<Rightarrow> (exn + 'a) \<times> world"

definition ret :: "'a \<Rightarrow> 'a prog" where
  "ret x = (\<lambda>w. (Inr x, w))"

definition throw :: "exn \<Rightarrow> 'a prog" where
  "throw e = (\<lambda>w. (Inl e, w))"

definition lift :: "exn + 'a \<Rightarrow> 'a prog" where
  "lift r = (\<lambda>w. (r, w))"

definition bnd :: "'a prog \<Rightarrow> ('a \<Rightarrow> 'b prog) \<Rightarrow> 'b prog" where
  "bnd m f = (\<lambda>w. case m w of (Inl e, w') \<Rightarrow> (Inl e, w') | (Inr x, w') \<Rightarrow> f x w')"

definition andthen :: "'a prog \<Rightarrow> 'b prog \<Rightarrow> 'b prog" where
  "andthen m k = bnd m (\<lambda>_. k)"

text \<open>\<open>try: m except Exception as e: h e\<close>\<close>

definition try_except :: "'a prog \<Rightarrow> (exn \<Rightarrow> 'a prog) \<Rightarrow> 'a prog" where
  "try_except m h = (\<lambda>w. case m w of (Inl e, w') \<Rightarrow> h e w' | (Inr x, w') \<Rightarrow> (Inr x, w'))"

text \<open>
  An outward action: it is recorded, and the environment says whether it raises. It
  returns its own index, under which the caller reads the reply.
\<close>

definition act :: "env \<Rightarrow> event \<Rightarrow> nat prog" where
  "act en ev = (\<lambda>w.
     let n = length (trace w); w' = w\<lparr>trace := trace w @ [ev]\<rparr>
     in case fault en n of Some e \<Rightarrow> (Inl e, w') | None \<Rightarrow> (Inr n, w'))"

text \<open>\<open>response.raise_for_status()\<close> raises on a 4xx or 5xx status.\<close>

definition http_error :: "env \<Rightarrow> nat \<Rightarrow> bool" where
  "http_error en n = (400 \<le> status_code en n \<and> status_code en n < 600)"

definition raise_for_status :: "env \<Rightarrow> nat \<Rightarrow> unit prog" where
  "raise_for_status en n =
     (if http_error en n then throw (Exn ''HTTPError'' ''HTTP error'') else ret ())"

text \<open>The events that a computation adds to the trace.\<close>

definition new_events :: "world \<Rightarrow> world \<Rightarrow> event list" where
  "new_events w w' = drop (length (trace w)) (trace w')"

section \<open>Command execution\<close>

text \<open>
  \<open>_acknowledge_command\<close> builds \<open>ack_data\<close> (a field is added only when its argument is
  truthy), posts it, and swallows every exception.
\<close>

definition ack_data :: "string \<Rightarrow> string option \<Rightarrow> json option \<Rightarrow> string option \<Rightarrow> (string \<times> json) list" where
  "ack_data status message result error =
     [(''status'', JStr status)]
     @ (case message of Some m \<Rightarrow> (if m \<noteq> [] then [(''message'', JStr m)] else []) | None \<Rightarrow> [])
     @ (case result of Some r \<Rightarrow> (if truthy r then [(''result'', r)] else []) | None \<Rightarrow> [])
     @ (case error of Some e \<Rightarrow> (if e \<noteq> [] then [(''error'', JStr e)] else []) | None \<Rightarrow> [])"

definition acknowledge_command ::
  "env \<Rightarrow> json \<Rightarrow> string \<Rightarrow> string option \<Rightarrow> json option \<Rightarrow> string option \<Rightarrow> unit prog" where
  "acknowledge_command en command_id status message result error =
     try_except
       (bnd (act en (AckPost command_id (ack_data status message result error)))
            (\<lambda>n. raise_for_status en n))
       (\<lambda>e. ret ())"

subsection \<open>Python's \<open>str\<close> and path joining\<close>

text \<open>Decimal digits of a natural number, most significant first.\<close>

fun nat_digits :: "nat \<Rightarrow> string" where
  "nat_digits n =
     (if 10 \<le> n then nat_digits (n div 10) @ [''0123456789'' ! (n mod 10)]
      else [''0123456789'' ! n])"

declare nat_digits.simps [simp del]

definition int_digits :: "int \<Rightarrow> string" where
  "int_digits i = (if i < 0 then ''-'' @ nat_digits (nat (- i)) else nat_digits (nat i))"

definition py_str :: "env \<Rightarrow> json \<Rightarrow> string" where
  "py_str en v =
     (case v of
        JNull \<Rightarrow> ''None''
      | JBool b \<Rightarrow> (if b then ''True'' else ''False'')
      | JInt i \<Rightarrow> int_digits i
      | JStr s \<Rightarrow> s
      | _ \<Rightarrow> repr_container en v)"

text \<open>\<open>os.path.join(d, name)\<close>: an absolute \<open>name\<close> replaces \<open>d\<close>.\<close>

definition path_join :: "string \<Rightarrow> string \<Rightarrow> string" where
  "path_join d name = (case name of c # _ \<Rightarrow> (if c = CHR ''/'' then name else d @ ''/'' @ name) | [] \<Rightarrow> d @ ''/'')"

subsection \<open>The progress arithmetic: \<open>int((downloaded / total_size) * 50)\<close>\<close>

text \<open>
  The source divides two integers into a binary64 float, multiplies by 50 in binary64 and
  truncates. A finite non-negative float is a pair \<open>(m, s)\<close> that stands for \<open>m * 2 ^ s\<close>;
  \<open>binary64 a b\<close> is the float nearest to \<open>a / b\<close> (ties to even, subnormals included), and
  \<open>None\<close> where the rounded value is beyond the largest float.
\<close>

fun bitlen :: "nat \<Rightarrow> nat" where
  "bitlen n = (if n = 0 then 0 else 1 + bitlen (n div 2))"

declare bitlen.simps [simp del]

definition round_half_even :: "nat \<Rightarrow> nat \<Rightarrow> nat" where
  "round_half_even a b =
     (if 2 * (a mod b) < b then a div b
      else if b < 2 * (a mod b) then a div b + 1
      else if even (a div b) then a div b else a div b + 1)"

definition pow2_le :: "int \<Rightarrow> nat \<Rightarrow> nat \<Rightarrow> bool" where
  "pow2_le k a b = (if 0 \<le> k then b * 2 ^ nat k \<le> a else b \<le> a * 2 ^ nat (- k))"

definition scaled_round :: "int \<Rightarrow> nat \<Rightarrow> nat \<Rightarrow> nat" where
  "scaled_round s a b =
     (if 0 \<le> s then round_half_even a (b * 2 ^ nat s) else round_half_even (a * 2 ^ nat (- s)) b)"

definition float_exponent :: "nat \<Rightarrow> nat \<Rightarrow> int" where
  "float_exponent a b =
     (if pow2_le (int (bitlen a) - int (bitlen b)) a b
      then int (bitlen a) - int (bitlen b) else int (bitlen a) - int (bitlen b) - 1)"

definition pack64 :: "int \<Rightarrow> nat \<Rightarrow> (nat \<times> int) option" where
  "pack64 e m = (if 1023 < e \<or> (e = 1023 \<and> m = 2 ^ 53) then None else Some (m, max e (- 1022) - 52))"

definition binary64 :: "nat \<Rightarrow> nat \<Rightarrow> (nat \<times> int) option" where
  "binary64 a b =
     (if a = 0 then Some (0, 0)
      else pack64 (float_exponent a b) (scaled_round (max (float_exponent a b) (- 1022) - 52) a b))"

definition float_times :: "nat \<Rightarrow> nat \<times> int \<Rightarrow> (nat \<times> int) option" where
  "float_times c x =
     (case x of (m, s) \<Rightarrow>
        if 0 \<le> s then binary64 (c * m * 2 ^ nat s) 1 else binary64 (c * m) (2 ^ nat (- s)))"

definition float_trunc :: "nat \<times> int \<Rightarrow> int" where
  "float_trunc x = (case x of (m, s) \<Rightarrow> if 0 \<le> s then int (m * 2 ^ nat s) else int (m div 2 ^ nat (- s)))"

definition py_progress :: "nat \<Rightarrow> nat \<Rightarrow> exn + int" where
  "py_progress downloaded total_size =
     (case binary64 downloaded total_size of
        None \<Rightarrow> Inl (Exn ''OverflowError'' ''integer division result too large for a float'')
      | Some x \<Rightarrow>
          (case float_times 50 x of
             None \<Rightarrow> Inl (Exn ''OverflowError'' ''cannot convert float infinity to integer'')
           | Some y \<Rightarrow> Inr (float_trunc y)))"

section \<open>The update state machine\<close>

text \<open>
  \<open>_report_update_status\<close>: \<open>progress\<close> is sent when it is not \<open>None\<close>, \<open>error\<close> when it is
  truthy; every exception is swallowed.
\<close>

definition status_data :: "string \<Rightarrow> int option \<Rightarrow> string option \<Rightarrow> (string \<times> json) list" where
  "status_data status progress error =
     [(''status'', JStr status)]
     @ (case progress of Some p \<Rightarrow> [(''progress'', JInt p)] | None \<Rightarrow> [])
     @ (case error of Some e \<Rightarrow> (if e \<noteq> [] then [(''error'', JStr e)] else []) | None \<Rightarrow> [])"

definition report_update_status ::
  "env \<Rightarrow> json \<Rightarrow> string \<Rightarrow> int option \<Rightarrow> string option \<Rightarrow> unit prog" where
  "report_update_status en update_id status progress error =
     try_except
       (bnd (act en (StatusPost update_id (status_data status progress error)))
            (\<lambda>n. raise_for_status en n))
       (\<lambda>e. ret ())"

text \<open>Opening a file with mode \<open>'wb'\<close> empties it; \<open>f.write(chunk)\<close> appends.\<close>

definition file_truncate :: "string \<Rightarrow> unit prog" where
  "file_truncate path = (\<lambda>w. (Inr (), w\<lparr>files := (files w)(path \<mapsto> [])\<rparr>))"

definition file_append :: "string \<Rightarrow> byte list \<Rightarrow> unit prog" where
  "file_append path chunk = (\<lambda>w.
     (Inr (), w\<lparr>files := (files w)(path \<mapsto> (case files w path of None \<Rightarrow> chunk | Some bs \<Rightarrow> bs @ chunk))\<rparr>))"

definition file_read :: "string \<Rightarrow> (byte list) prog" where
  "file_read path = (\<lambda>w.
     case files w path of
       None \<Rightarrow> (Inl (Exn ''FileNotFoundError'' ''No such file or directory''), w)
     | Some bs \<Rightarrow> (Inr bs, w))"

text \<open>The loop over \<open>r.iter_content(chunk_size=8192)\<close>, with \<open>downloaded\<close> as its counter.\<close>

fun write_chunks :: "env \<Rightarrow> json \<Rightarrow> string \<Rightarrow> int \<Rightarrow> nat \<Rightarrow> byte list list \<Rightarrow> unit prog" where
  "write_chunks en update_id update_file total_size downloaded [] = ret ()"
| "write_chunks en update_id update_file total_size downloaded (chunk # rest) =
     andthen (act en (Write update_file chunk))
    (andthen (file_append update_file chunk)
    (andthen (if 0 < total_size
              then bnd (lift (py_progress (downloaded + length chunk) (nat total_size)))
                       (\<lambda>progress. report_update_status en update_id ''downloading'' (Some progress) None)
              else ret ())
    (write_chunks en update_id update_file total_size (downloaded + length chunk) rest)))"

definition update_file_path :: "env \<Rightarrow> json \<Rightarrow> string" where
  "update_file_path en update_id = path_join ''~/.fleetd/updates'' (py_str en update_id @ ''.bin'')"

text \<open>\<open>int(r.headers.get('content-length', 0))\<close>\<close>

definition total_size_of :: "header \<Rightarrow> exn + int" where
  "total_size_of h =
     (case h of
        NoHeader \<Rightarrow> Inr 0
      | IntHeader i \<Rightarrow> Inr i
      | BadHeader s \<Rightarrow> Inl (Exn ''ValueError'' (''invalid literal for int() with base 10: '' @ s)))"

definition download_update :: "env \<Rightarrow> json \<Rightarrow> json \<Rightarrow> string prog" where
  "download_update en url update_id =
     andthen (act en (MakeDirs ''~/.fleetd/updates''))
    (bnd (act en (DownloadGet url)) (\<lambda>n.
     andthen (raise_for_status en n)
    (bnd (lift (total_size_of (dl_content_length (download_reply en n)))) (\<lambda>total_size.
     andthen (act en (OpenWrite (update_file_path en update_id)))
    (andthen (file_truncate (update_file_path en update_id))
    (andthen (write_chunks en update_id (update_file_path en update_id) total_size 0
                (dl_chunks (download_reply en n)))
    (andthen (case dl_broken (download_reply en n) of Some e \<Rightarrow> throw e | None \<Rightarrow> ret ())
    (ret (update_file_path en update_id)))))))))"

text \<open>
  \<open>_verify_checksum\<close> reads the file in blocks of 4096 bytes, feeds each to the hash and
  compares the hex digest with the expected checksum by \<open>==\<close>.
\<close>

function read_blocks :: "byte list \<Rightarrow> byte list list" where
  "read_blocks bs = (if bs = [] then [] else take 4096 bs # read_blocks (drop 4096 bs))"
  by pat_completeness auto

termination
  by (relation "measure length") auto

declare read_blocks.simps [simp del]

definition verify_checksum :: "env \<Rightarrow> string \<Rightarrow> json \<Rightarrow> bool prog" where
  "verify_checksum en file_path expected_checksum =
     andthen (act en (OpenRead file_path))
    (bnd (file_read file_path) (\<lambda>content.
     ret (JStr (sha256_hexdigest en (concat (read_blocks content))) = expected_checksum)))"

text \<open>\<open>_install_update\<close> is a placeholder that logs and returns; the event marks the call.\<close>

definition mark :: "event \<Rightarrow> unit prog" where
  "mark ev = (\<lambda>w. (Inr (), w\<lparr>trace := trace w @ [ev]\<rparr>))"

definition install_update :: "string \<Rightarrow> unit prog" where
  "install_update update_file = mark (Install update_file)"

text \<open>
  The \<open>try\<close> block of \<open>_handle_update_command\<close>, cut at the phases of the update: the
  download, the verification, and the installation with what follows it.
\<close>

definition finish_update :: "env \<Rightarrow> json \<Rightarrow> json \<Rightarrow> json \<Rightarrow> string \<Rightarrow> unit prog" where
  "finish_update en command_id payload update_id update_file =
     andthen (report_update_status en update_id ''installing'' (Some 75) None)
    (andthen (install_update update_file)
    (andthen (report_update_status en update_id ''completed'' (Some 100) None)
    (andthen (acknowledge_command en command_id ''completed'' None None None)
    (bnd (lift (py_get payload ''reboot_required'' JNull)) (\<lambda>reboot_required.
       if truthy reboot_required
       then andthen (mark (Sleep 10)) (bnd (act en (Subprocess [''sudo'', ''reboot''] False)) (\<lambda>_. ret ()))
       else ret ())))))"

definition verify_and_install :: "env \<Rightarrow> json \<Rightarrow> json \<Rightarrow> json \<Rightarrow> json \<Rightarrow> string \<Rightarrow> unit prog" where
  "verify_and_install en command_id payload update_id checksum update_file =
     andthen (report_update_status en update_id ''verifying'' (Some 50) None)
    (bnd (verify_checksum en update_file checksum) (\<lambda>ok.
     andthen (if \<not> ok then throw (Exn ''ValueError'' ''Checksum verification failed'') else ret ())
             (finish_update en command_id payload update_id update_file)))"

definition update_steps :: "env \<Rightarrow> json \<Rightarrow> json \<Rightarrow> json \<Rightarrow> json \<Rightarrow> json \<Rightarrow> unit prog" where
  "update_steps en command_id payload update_id update_url checksum =
     andthen (report_update_status en update_id ''downloading'' (Some 0) None)
    (bnd (download_update en update_url update_id)
         (verify_and_install en command_id payload update_id checksum))"

definition handle_update_command :: "env \<Rightarrow> json \<Rightarrow> json \<Rightarrow> unit prog" where
  "handle_update_command en command_id payload =
     bnd (lift (py_get payload ''update_id'' JNull)) (\<lambda>update_id.
     bnd (lift (py_get payload ''download_url'' JNull)) (\<lambda>update_url.
     bnd (lift (py_get payload ''checksum'' JNull)) (\<lambda>checksum.
     try_except (update_steps en command_id payload update_id update_url checksum)
       (\<lambda>e. andthen (report_update_status en update_id ''failed'' None (Some (exn_text e)))
                     (acknowledge_command en command_id ''failed'' None None (Some (exn_text e)))))))"

section \<open>Log collection and command dispatch\<close>

text \<open>\<open>"..." + log_type\<close> raises TypeError unless \<open>log_type\<close> is a string.\<close>

definition str_plus :: "string \<Rightarrow> json \<Rightarrow> exn + string" where
  "str_plus s v =
     (case v of
        JStr t \<Rightarrow> Inr (s @ t)
      | _ \<Rightarrow> Inl (Exn ''TypeError''
                 (''can only concatenate str (not '' @ [CHR 0x22] @ py_type v @ [CHR 0x22] @ '') to str'')))"

text \<open>The body of the \<open>try\<close> block of \<open>_collect_and_upload_logs\<close>, and the method.\<close>

definition collect_logs_steps :: "env \<Rightarrow> json \<Rightarrow> json \<Rightarrow> unit prog" where
  "collect_logs_steps en command_id payload =
     bnd (lift (py_get payload ''log_type'' (JStr ''system''))) (\<lambda>log_type.
     bnd (lift (py_get payload ''since'' (JStr ''1h''))) (\<lambda>since.
     bnd (if log_type = JStr ''system''
          then bnd (act en (Journalctl since)) (\<lambda>n. ret (check_output en n))
          else lift (str_plus ''Log collection not implemented for type: '' log_type)) (\<lambda>logs.
     bnd (act en (LogsPost logs)) (\<lambda>n.
     andthen (raise_for_status en n)
             (acknowledge_command en command_id ''completed'' None None None)))))"

definition collect_and_upload_logs :: "env \<Rightarrow> json \<Rightarrow> json \<Rightarrow> unit prog" where
  "collect_and_upload_logs en command_id payload =
     try_except (collect_logs_steps en command_id payload)
       (\<lambda>e. acknowledge_command en command_id ''failed'' None None (Some (exn_text e)))"

definition run_result :: "string \<times> string \<times> int \<Rightarrow> json" where
  "run_result r =
     (case r of (out, err, rc) \<Rightarrow>
        JObj [(''stdout'', JStr out), (''stderr'', JStr err), (''returncode'', JInt rc)])"

definition returncode :: "string \<times> string \<times> int \<Rightarrow> int" where
  "returncode r = snd (snd r)"

text \<open>The body of the \<open>try\<close> block of \<open>_execute_command\<close>.\<close>

definition dispatch :: "env \<Rightarrow> json \<Rightarrow> json \<Rightarrow> json \<Rightarrow> unit prog" where
  "dispatch en command_id command_type payload =
     andthen (acknowledge_command en command_id ''received'' None None None)
     (if command_type = JStr ''reboot'' then
        andthen (acknowledge_command en command_id ''executing'' None None None)
                (bnd (act en (Subprocess [''sudo'', ''reboot''] True)) (\<lambda>_. ret ()))
      else if command_type = JStr ''execute'' then
        andthen (acknowledge_command en command_id ''executing'' None None None)
       (bnd (lift (py_get payload ''script'' (JStr []))) (\<lambda>script.
        bnd (lift (py_get payload ''timeout'' (JInt 60))) (\<lambda>timeout.
        bnd (act en (Shell script timeout)) (\<lambda>n.
          acknowledge_command en command_id
            (if returncode (shell_result en n) = 0 then ''completed'' else ''failed'')
            None (Some (run_result (shell_result en n))) None))))
      else if command_type = JStr ''update'' then handle_update_command en command_id payload
      else if command_type = JStr ''collect_logs'' then collect_and_upload_logs en command_id payload
      else acknowledge_command en command_id ''failed'' None None
             (Some (''Unknown command type: '' @ py_str en command_type)))"

definition execute_command :: "env \<Rightarrow> (string \<times> json) list \<Rightarrow> unit prog" where
  "execute_command en command =
     bnd (lift (py_getitem command ''id'')) (\<lambda>command_id.
     bnd (lift (py_getitem command ''command'')) (\<lambda>command_type.
     try_except (dispatch en command_id command_type (dict_get command ''payload'' (JObj [])))
       (\<lambda>e. acknowledge_command en command_id ''failed'' None None (Some (exn_text e)))))"

section \<open>Reading a trace\<close>

fun is_install :: "event \<Rightarrow> bool" where
  "is_install (Install f) = True"
| "is_install _ = False"

fun is_status :: "event \<Rightarrow> bool" where
  "is_status (StatusPost u d) = True"
| "is_status _ = False"

text \<open>
  The requests by which the agent reports the receipt of a command, its failure with the
  text of an exception, and the failure of an update.
\<close>

definition received_ack :: "json \<Rightarrow> event" where
  "received_ack command_id = AckPost command_id (ack_data ''received'' None None None)"

definition failed_ack :: "json \<Rightarrow> exn \<Rightarrow> event" where
  "failed_ack command_id e = AckPost command_id (ack_data ''failed'' None None (Some (exn_text e)))"

definition failed_status :: "json \<Rightarrow> exn \<Rightarrow> event" where
  "failed_status update_id e = StatusPost update_id (status_data ''failed'' None (Some (exn_text e)))"

text \<open>The last two actions are the update status \<open>failed\<close> and the acknowledgement \<open>failed\<close>.\<close>

definition reports_failed :: "json \<Rightarrow> json \<Rightarrow> event list \<Rightarrow> bool" where
  "reports_failed update_id command_id tr =
     (case rev tr of
        AckPost c a # StatusPost u s # _ \<Rightarrow>
          c = command_id \<and> u = update_id \<and>
          map_of a ''status'' = Some (JStr ''failed'') \<and> map_of s ''status'' = Some (JStr ''failed'')
      | _ \<Rightarrow> False)"

section \<open>Concrete environments and inputs\<close>

text \<open>An environment in which nothing fails, and the agent before \<open>start\<close>.\<close>

definition quiet_env :: env where
  "quiet_env = \<lparr>fault = (\<lambda>n. None), status_code = (\<lambda>n. 200), json_body = (\<lambda>n. Inr JNull),
     shell_result = (\<lambda>n. ([], [], 0)), check_output = (\<lambda>n. []),
     download_reply = (\<lambda>n. \<lparr>dl_content_length = NoHeader, dl_chunks = [], dl_broken = None\<rparr>),
     sha256_hexdigest = (\<lambda>bs. []), repr_container = (\<lambda>v. []),
     system_info = JObj [], utcnow = [], hardware_serial = ''10000000abcdef01''\<rparr>"

definition fresh_world :: world where
  "fresh_world = \<lparr>trace = [], files = Map.empty, credentials_file = None,
     config = \<lparr>device_token = JNull, hardware_id = None, heartbeat_interval = 60,
       telemetry_interval = 30, command_poll_interval = 10, enrollment_token = None,
       device_type = ''raspberry-pi''\<rparr>,
     device_id = JNull, session_headers = Map.empty, running = False, command_queue = []\<rparr>"

text \<open>A concrete update job: the reply to the download and the digest are fixed.\<close>

definition artifact_env :: "header \<Rightarrow> byte list list \<Rightarrow> string \<Rightarrow> env" where
  "artifact_env h chunks digest =
     quiet_env\<lparr>download_reply := (\<lambda>n. \<lparr>dl_content_length = h, dl_chunks = chunks, dl_broken = None\<rparr>),
       sha256_hexdigest := (\<lambda>bs. digest)\<rparr>"

definition update_payload :: "string \<Rightarrow> (string \<times> json) list" where
  "update_payload checksum =
     [(''update_id'', JStr ''u1''), (''download_url'', JStr ''https://fleet/u1''),
      (''checksum'', JStr checksum)]"

text \<open>An environment in which the script exits with code 2.\<close>

definition failing_script_env :: env where
  "failing_script_env = quiet_env\<lparr>shell_result := (\<lambda>n. (''partial'', ''boom'', 2))\<rparr>"

text \<open>An environment in which the third outward action, the reboot, raises.\<close>

definition reboot_fails_env :: env where
  "reboot_fails_env =
     quiet_env\<lparr>fault := (\<lambda>n. if n = 2 then Some (Exn ''CalledProcessError'' ''reboot failed'') else None)\<rparr>"

text \<open>An environment in which the third outward action, the upload of the logs, raises.\<close>

definition upload_fails_env :: env where
  "upload_fails_env =
     quiet_env\<lparr>fault := (\<lambda>n. if n = 2 then Some (Exn ''ConnectionError'' ''upload failed'') else None),
       check_output := (\<lambda>n. ''Nov 04 boot'')\<rparr>"

section \<open>Notions used to state the claims\<close>

text \<open>
  The spec's comparison, for reference: two hex strings are equal up to the case of their
  letters.
\<close>

definition lower_char :: "char \<Rightarrow> char" where
  "lower_char c =
     (case map_of (zip ''ABCDEFGHIJKLMNOPQRSTUVWXYZ'' ''abcdefghijklmnopqrstuvwxyz'') c of
        Some d \<Rightarrow> d
      | None \<Rightarrow> c)"

definition same_ignoring_case :: "string \<Rightarrow> string \<Rightarrow> bool" where
  "same_ignoring_case a b = (map lower_char a = map lower_char b)"

text \<open>
  The update job whose artifact is empty: \<open>e3b0...b855\<close> is the SHA-256 digest of the empty
  byte string, as \<open>hexdigest()\<close> prints it.
\<close>

definition empty_artifact_env :: env where
  "empty_artifact_env =
     artifact_env NoHeader [] ''e3b0c44298fc1c149afbf4c8996fb92427ae41e4649b934ca495991b7852b855''"

definition stored_empty :: world where
  "stored_empty = fresh_world\<lparr>files := [''~/.fleetd/updates/u1.bin'' \<mapsto> []]\<rparr>"

text \<open>The progress values that a trace reports, in order.\<close>

fun progress_of :: "event \<Rightarrow> int list" where
  "progress_of (StatusPost u d) = (case map_of d ''progress'' of Some (JInt p) \<Rightarrow> [p] | _ \<Rightarrow> [])"
| "progress_of _ = []"

definition reported_progress :: "event list \<Rightarrow> int list" where
  "reported_progress tr = concat (map progress_of tr)"

section \<open>Enrollment, startup and the periodic duties\<close>

definition get_world :: "world prog" where
  "get_world = (\<lambda>w. (Inr w, w))"

definition modify :: "(world \<Rightarrow> world) \<Rightarrow> unit prog" where
  "modify f = (\<lambda>w. (Inr (), f w))"

text \<open>
  \<open>x[key]\<close> on a decoded JSON value; only a dict can be indexed by a string. The text of
  the TypeError differs between Python versions and is only ever logged.
\<close>

definition py_subscript :: "json \<Rightarrow> string \<Rightarrow> exn + json" where
  "py_subscript x k =
     (case x of
        JObj d \<Rightarrow> py_getitem d k
      | _ \<Rightarrow> Inl (Exn ''TypeError'' (py_type x @ '' cannot be indexed by str'')))"

text \<open>\<open>FleetDeviceAgent.__init__\<close>, and the configuration that \<open>main\<close> builds.\<close>

definition agent_init :: "env \<Rightarrow> AgentConfig \<Rightarrow> world \<Rightarrow> world" where
  "agent_init en cfg w =
     w\<lparr>config := (if hardware_id cfg = None \<or> hardware_id cfg = Some []
                  then cfg\<lparr>hardware_id := Some (hardware_serial en)\<rparr> else cfg),
       device_id := JNull,
       running := False,
       command_queue := [],
       session_headers := (if truthy (device_token cfg) then [''X-Device-Token'' \<mapsto> device_token cfg]
                           else Map.empty)\<rparr>"

definition main_config :: "string option \<Rightarrow> int \<Rightarrow> int \<Rightarrow> AgentConfig" where
  "main_config token heartbeat telemetry =
     \<lparr>device_token = JNull, hardware_id = None, heartbeat_interval = heartbeat,
      telemetry_interval = telemetry, command_poll_interval = 10, enrollment_token = token,
      device_type = ''raspberry-pi''\<rparr>"

definition credentials_path :: string where
  "credentials_path = ''~/.fleetd/credentials.json''"

text \<open>\<open>_save_credentials\<close>: opening the file for writing empties it before the dump.\<close>

definition save_credentials :: "env \<Rightarrow> json \<Rightarrow> unit prog" where
  "save_credentials en enrollment_data =
     andthen (act en (MakeDirs ''~/.fleetd''))
    (andthen (act en (OpenWrite credentials_path))
    (andthen (modify (\<lambda>w. w\<lparr>credentials_file := Some Unparseable\<rparr>))
    (bnd (lift (py_subscript enrollment_data ''device_id'')) (\<lambda>did.
     bnd (lift (py_subscript enrollment_data ''device_token'')) (\<lambda>tok.
     bnd (lift (py_get enrollment_data ''fleet_id'' JNull)) (\<lambda>fleet.
     andthen (act en (SaveCredentials
                [(''device_id'', did), (''device_token'', tok), (''fleet_id'', fleet),
                 (''enrolled_at'', JStr (utcnow en))]))
    (andthen (modify (\<lambda>w. w\<lparr>credentials_file := Some (Parsed (JObj
                [(''device_id'', did), (''device_token'', tok), (''fleet_id'', fleet),
                 (''enrolled_at'', JStr (utcnow en))]))\<rparr>))
    (bnd (act en (Chmod credentials_path)) (\<lambda>_. ret ())))))))))"

definition load_credentials :: "env \<Rightarrow> bool prog" where
  "load_credentials en =
     bnd get_world (\<lambda>w0.
       case credentials_file w0 of
         None \<Rightarrow> ret False
       | Some st \<Rightarrow>
           try_except
             (andthen (act en (OpenRead credentials_path))
             (bnd (case st of
                     Unparseable \<Rightarrow> throw (Exn ''JSONDecodeError'' ''Expecting value'')
                   | Parsed credentials \<Rightarrow> ret credentials) (\<lambda>credentials.
              bnd (lift (py_subscript credentials ''device_id'')) (\<lambda>did.
              andthen (modify (\<lambda>w. w\<lparr>device_id := did\<rparr>))
             (bnd (lift (py_subscript credentials ''device_token'')) (\<lambda>tok.
              andthen (modify (\<lambda>w. w\<lparr>config := (config w)\<lparr>device_token := tok\<rparr>\<rparr>))
             (andthen (modify (\<lambda>w. w\<lparr>session_headers := (session_headers w)(''X-Device-Token'' \<mapsto> tok)\<rparr>))
             (ret True))))))))
             (\<lambda>e. ret False))"

definition enrollment_data :: "env \<Rightarrow> AgentConfig \<Rightarrow> (string \<times> json) list" where
  "enrollment_data en cfg =
     [(''hardware_id'', (case hardware_id cfg of None \<Rightarrow> JNull | Some h \<Rightarrow> JStr h)),
      (''device_type'', JStr (device_type cfg)),
      (''capabilities'', JList [JStr ''telemetry'', JStr ''remote_command'', JStr ''ota_update'',
                                JStr ''log_upload'']),
      (''metadata'', system_info en)]
     @ (case enrollment_token cfg of
          None \<Rightarrow> []
        | Some t \<Rightarrow> (if t \<noteq> [] then [(''enrollment_token'', JStr t)] else []))"

definition enroll :: "env \<Rightarrow> bool prog" where
  "enroll en =
     try_except
       (bnd get_world (\<lambda>w0.
        bnd (act en (EnrollPost (enrollment_data en (config w0)))) (\<lambda>n.
          if status_code en n = 409 then ret True
          else
            andthen (raise_for_status en n)
           (bnd (lift (json_body en n)) (\<lambda>enrollment_response.
            bnd (lift (py_subscript enrollment_response ''device_id'')) (\<lambda>did.
            andthen (modify (\<lambda>w. w\<lparr>device_id := did\<rparr>))
           (bnd (lift (py_subscript enrollment_response ''device_token'')) (\<lambda>tok.
            andthen (modify (\<lambda>w. w\<lparr>config := (config w)\<lparr>device_token := tok\<rparr>\<rparr>))
           (andthen (modify (\<lambda>w. w\<lparr>session_headers := (session_headers w)(''X-Device-Token'' \<mapsto> tok)\<rparr>))
           (andthen (save_credentials en enrollment_response)
           (ret True)))))))))))
       (\<lambda>e. ret False)"

text \<open>
  \<open>start\<close>, up to the point where the three duty threads are started: it returns False
  when enrollment fails and True when the duties are running. The loop in which the main
  thread then sleeps until \<open>stop\<close> is not part of the model.
\<close>

definition push_system_info :: "env \<Rightarrow> unit prog" where
  "push_system_info en =
     try_except (bnd (act en (SystemPut (system_info en))) (\<lambda>n. raise_for_status en n))
                (\<lambda>e. ret ())"

definition launch :: "env \<Rightarrow> bool prog" where
  "launch en =
     andthen (push_system_info en)
    (andthen (modify (\<lambda>w. w\<lparr>running := True\<rparr>))
    (andthen (mark SpawnThreads) (ret True)))"

definition start :: "env \<Rightarrow> bool prog" where
  "start en =
     bnd (load_credentials en) (\<lambda>loaded.
       if \<not> loaded then
         bnd (enroll en) (\<lambda>enrolled. if \<not> enrolled then ret False else launch en)
       else launch en)"

text \<open>\<open>pending > 0\<close> on a decoded JSON value: a bool is an int in Python.\<close>

definition py_positive :: "json \<Rightarrow> exn + bool" where
  "py_positive v =
     (case v of
        JInt i \<Rightarrow> Inr (0 < i)
      | JBool b \<Rightarrow> Inr b
      | _ \<Rightarrow> Inl (Exn ''TypeError''
                 ([CHR 0x27, CHR ''>'', CHR 0x27] @ '' not supported between instances of '' @
                  [CHR 0x27] @ py_type v @ [CHR 0x27] @ '' and '' @ [CHR 0x27] @ ''int'' @ [CHR 0x27])))"

text \<open>\<open>Queue()\<close> has no bound: \<open>put\<close> appends and returns at once.\<close>

definition queue_put :: "string \<Rightarrow> unit prog" where
  "queue_put item = modify (\<lambda>w. w\<lparr>command_queue := command_queue w @ [item]\<rparr>)"

text \<open>
  \<open>command_queue.get(timeout=...)\<close> inside \<open>try ... except Empty: pass\<close>: the head of the
  queue is removed if there is one; on an empty queue the wait ends with \<open>Empty\<close>, which is
  passed over (no other thread runs inside one step of the model).
\<close>

definition queue_get :: "unit prog" where
  "queue_get = modify (\<lambda>w. w\<lparr>command_queue := tl (command_queue w)\<rparr>)"

definition send_heartbeat :: "env \<Rightarrow> bool prog" where
  "send_heartbeat en =
     try_except
       (bnd (act en HeartbeatPost) (\<lambda>n.
        andthen (raise_for_status en n)
       (bnd (lift (json_body en n)) (\<lambda>result.
        bnd (lift (py_get result ''pending_commands'' (JInt 0))) (\<lambda>pending.
        bnd (lift (py_positive pending)) (\<lambda>positive.
        andthen (if positive then queue_put ''poll_commands'' else ret ())
                (ret True)))))))
       (\<lambda>e. ret False)"

text \<open>The heartbeat duty run \<open>k\<close> times with no step of another duty in between.\<close>

fun heartbeats :: "env \<Rightarrow> nat \<Rightarrow> world \<Rightarrow> world" where
  "heartbeats en 0 w = w"
| "heartbeats en (Suc k) w = heartbeats en k (snd (send_heartbeat en w))"

text \<open>\<open>for command in commands\<close>: a list gives its elements, a dict its keys, a string its characters.\<close>

definition py_iter :: "json \<Rightarrow> exn + json list" where
  "py_iter v =
     (case v of
        JList xs \<Rightarrow> Inr xs
      | JObj d \<Rightarrow> Inr (map (\<lambda>kv. JStr (fst kv)) d)
      | JStr s \<Rightarrow> Inr (map (\<lambda>c. JStr [c]) s)
      | _ \<Rightarrow> Inl (Exn ''TypeError'' ([CHR 0x27] @ py_type v @ [CHR 0x27] @ '' object is not iterable'')))"

fun execute_all :: "env \<Rightarrow> json list \<Rightarrow> unit prog" where
  "execute_all en [] = ret ()"
| "execute_all en (command # rest) =
     andthen (case command of
                JObj d \<Rightarrow> execute_command en d
              | _ \<Rightarrow> throw (Exn ''TypeError'' (py_type command @ '' cannot be indexed by str'')))
             (execute_all en rest)"

definition poll_commands :: "env \<Rightarrow> unit prog" where
  "poll_commands en =
     try_except
       (bnd (act en CommandsGet) (\<lambda>n.
          if status_code en n = 204 then ret ()
          else
            andthen (raise_for_status en n)
           (bnd (lift (json_body en n)) (\<lambda>body.
            bnd (lift (py_get body ''commands'' (JList []))) (\<lambda>commands.
            bnd (lift (py_iter commands)) (\<lambda>cs. execute_all en cs))))))
       (\<lambda>e. ret ())"

text \<open>One pass through the body of the \<open>while\<close> loop of \<open>_command_loop\<close>.\<close>

definition command_loop_step :: "env \<Rightarrow> unit prog" where
  "command_loop_step en =
     try_except (andthen queue_get (poll_commands en)) (\<lambda>e. ret ())"

subsection \<open>Concrete replies of the server\<close>

text \<open>The enrollment endpoint answers the first request with 409.\<close>

definition conflict_env :: env where
  "conflict_env = quiet_env\<lparr>status_code := (\<lambda>n. if n = 0 then 409 else 200)\<rparr>"

text \<open>Every heartbeat is answered with three pending commands.\<close>

definition pending_env :: env where
  "pending_env = quiet_env\<lparr>json_body := (\<lambda>n. Inr (JObj [(''pending_commands'', JInt 3)]))\<rparr>"

text \<open>A computation leaves the queue of wake-up notifications as it found it.\<close>

definition keeps_queue :: "'a prog \<Rightarrow> bool" where
  "keeps_queue m = (\<forall>w. command_queue (snd (m w)) = command_queue w)"

section \<open>Properties of command execution\<close>

lemma acknowledge_command_eq:
  "acknowledge_command en cid status message result error w =
     (Inr (), w\<lparr>trace := trace w @ [AckPost cid (ack_data status message result error)]\<rparr>)"
  by (simp add: acknowledge_command_def try_except_def bnd_def act_def raise_for_status_def
      ret_def throw_def Let_def split: option.splits)

lemma report_update_status_eq:
  "report_update_status en uid status progress error w =
     (Inr (), w\<lparr>trace := trace w @ [StatusPost uid (status_data status progress error)]\<rparr>)"
  by (simp add: report_update_status_def try_except_def bnd_def act_def raise_for_status_def
      ret_def throw_def Let_def split: option.splits)

text \<open>
  C3. A command whose type is none of reboot, execute, update, collect_logs makes the
  executor attempt exactly two outward actions, both acknowledgements: \<open>received\<close>, then
  \<open>failed\<close> with the error "Unknown command type: ..."; it returns without raising. So no
  \<open>executing\<close> or \<open>completed\<close> status is reported and no side effect is attempted.
\<close>

theorem unknown_command_type_two_statuses:
  assumes "map_of command ''id'' = Some command_id"
    and "map_of command ''command'' = Some command_type"
    and "command_type \<notin> {JStr ''reboot'', JStr ''execute'', JStr ''update'', JStr ''collect_logs''}"
  shows "execute_command en command w =
           (Inr (), w\<lparr>trace := trace w @
              [AckPost command_id [(''status'', JStr ''received'')],
               AckPost command_id [(''status'', JStr ''failed''),
                  (''error'', JStr (''Unknown command type: '' @ py_str en command_type))]]\<rparr>)"
  using assms
  by (simp add: execute_command_def dispatch_def py_getitem_def lift_def bnd_def andthen_def
      try_except_def acknowledge_command_eq ack_data_def)

theorem unknown_command_type_two_statuses_witness:
  "trace (snd (execute_command quiet_env
       [(''id'', JStr ''c1''), (''command'', JStr ''flash'')] fresh_world)) =
     [AckPost (JStr ''c1'') [(''status'', JStr ''received'')],
      AckPost (JStr ''c1'') [(''status'', JStr ''failed''),
         (''error'', JStr ''Unknown command type: flash'')]]"
  using unknown_command_type_two_statuses
    [of "[(''id'', JStr ''c1''), (''command'', JStr ''flash'')]" "JStr ''c1''" "JStr ''flash''"
        quiet_env fresh_world]
  by (simp add: py_str_def fresh_world_def)

section \<open>Properties of the update state machine\<close>

lemma act_eq:
  "act en ev w =
     ((case fault en (length (trace w)) of Some e \<Rightarrow> Inl e | None \<Rightarrow> Inr (length (trace w))),
      w\<lparr>trace := trace w @ [ev]\<rparr>)"
  by (simp add: act_def Let_def split: option.splits)

lemma concat_read_blocks: "concat (read_blocks bs) = bs"
proof (induction bs rule: read_blocks.induct)
  case (1 bs)
  show ?case
  proof (cases "bs = []")
    case True
    then show ?thesis by (simp add: read_blocks.simps)
  next
    case False
    with 1 have "concat (read_blocks (drop 4096 bs)) = drop 4096 bs" by simp
    with False show ?thesis by (subst read_blocks.simps) simp
  qed
qed

lemma write_chunks_effect:
  assumes "write_chunks en uid path tot d chunks w = (r, w')"
    and "files w path = Some old"
  shows "\<exists>evs. trace w' = trace w @ evs \<and> (\<forall>ev\<in>set evs. \<not> is_install ev) \<and>
           (r = Inr () \<longrightarrow> files w' path = Some (old @ concat chunks) \<and>
              length (filter is_status evs) = (if 0 < tot then length chunks else 0))"
  using assms
proof (induction chunks arbitrary: w d old)
  case Nil
  then show ?case by (simp add: ret_def)
next
  case (Cons chunk rest)
  let ?w1 = "w\<lparr>trace := trace w @ [Write path chunk]\<rparr>"
  show ?case
  proof (cases "fault en (length (trace w))")
    case (Some e)
    with Cons.prems show ?thesis
      by (auto simp: andthen_def bnd_def act_eq)
  next
    case None
    let ?w2 = "?w1\<lparr>files := (files w)(path \<mapsto> old @ chunk)\<rparr>"
    show ?thesis
    proof (cases "0 < tot")
      case False
      with None Cons.prems have rest: "write_chunks en uid path tot (d + length chunk) rest ?w2 = (r, w')"
        by (simp add: andthen_def bnd_def act_eq file_append_def ret_def)
      have "files ?w2 path = Some (old @ chunk)" by simp
      from Cons.IH[OF rest this] obtain evs where
        "trace w' = trace ?w2 @ evs" "\<forall>ev\<in>set evs. \<not> is_install ev"
        "r = Inr () \<longrightarrow> files w' path = Some ((old @ chunk) @ concat rest) \<and>
              length (filter is_status evs) = (if 0 < tot then length rest else 0)"
        by blast
      with False show ?thesis
        by (intro exI[of _ "Write path chunk # evs"]) simp
    next
      case True
      show ?thesis
      proof (cases "py_progress (d + length chunk) (nat tot)")
        case (Inl e)
        with True None Cons.prems show ?thesis
          by (auto simp: andthen_def bnd_def act_eq file_append_def lift_def)
      next
        case (Inr p)
        let ?w3 = "?w2\<lparr>trace := trace ?w2 @ [StatusPost uid (status_data ''downloading'' (Some p) None)]\<rparr>"
        from Inr True None Cons.prems have rest: "write_chunks en uid path tot (d + length chunk) rest ?w3 = (r, w')"
          by (simp add: andthen_def bnd_def act_eq file_append_def lift_def report_update_status_eq)
        have "files ?w3 path = Some (old @ chunk)" by simp
        from Cons.IH[OF rest this] obtain evs where
          "trace w' = trace ?w3 @ evs" "\<forall>ev\<in>set evs. \<not> is_install ev"
          "r = Inr () \<longrightarrow> files w' path = Some ((old @ chunk) @ concat rest) \<and>
              length (filter is_status evs) = (if 0 < tot then length rest else 0)"
          by blast
        with True show ?thesis
          by (intro exI[of _ "Write path chunk # StatusPost uid (status_data ''downloading'' (Some p) None) # evs"])
             simp
      qed
    qed
  qed
qed

lemma download_update_effect:
  assumes "download_update en url uid w = (r, w1)"
  shows "\<exists>evs. trace w1 = trace w @ evs \<and> (\<forall>ev\<in>set evs. \<not> is_install ev) \<and>
           (\<forall>f. r = Inr f \<longrightarrow> f = update_file_path en uid \<and>
              files w1 f = Some (concat (dl_chunks (download_reply en (Suc (length (trace w)))))) \<and>
              (\<forall>n. total_size_of (dl_content_length (download_reply en (Suc (length (trace w))))) = Inr n \<longrightarrow>
                length (filter is_status evs) =
                  (if 0 < n then length (dl_chunks (download_reply en (Suc (length (trace w))))) else 0)))"
proof -
  let ?L = "length (trace w)"
  let ?p = "update_file_path en uid"
  let ?rep = "download_reply en (Suc ?L)"
  let ?pre = "[MakeDirs ''~/.fleetd/updates'', DownloadGet url, OpenWrite ?p]"
  let ?w3 = "w\<lparr>trace := trace w @ ?pre, files := (files w)(?p \<mapsto> [])\<rparr>"
  show ?thesis
  proof (cases "fault en ?L = None \<and> fault en (Suc ?L) = None \<and>
                \<not> http_error en (Suc ?L) \<and>
                (\<exists>n. total_size_of (dl_content_length ?rep) = Inr n) \<and> fault en (Suc (Suc ?L)) = None")
    case False
    with assms show ?thesis
      by (auto simp: download_update_def andthen_def bnd_def act_eq raise_for_status_def lift_def
          throw_def ret_def split: option.splits sum.splits if_splits)
  next
    case True
    then obtain n where n: "total_size_of (dl_content_length ?rep) = Inr n" by blast
    obtain r' w4 where wc: "write_chunks en uid ?p n 0 (dl_chunks ?rep) ?w3 = (r', w4)"
      by (cases "write_chunks en uid ?p n 0 (dl_chunks ?rep) ?w3") blast
    have "files ?w3 ?p = Some []" by simp
    from write_chunks_effect[OF wc this] obtain evs where evs:
      "trace w4 = trace ?w3 @ evs" "\<forall>ev\<in>set evs. \<not> is_install ev"
      "r' = Inr () \<longrightarrow> files w4 ?p = Some ([] @ concat (dl_chunks ?rep)) \<and>
          length (filter is_status evs) = (if 0 < n then length (dl_chunks ?rep) else 0)"
      by blast
    from True n wc assms have res:
      "(r, w1) = (case r' of Inl e \<Rightarrow> (Inl e, w4)
                  | Inr u \<Rightarrow> (case dl_broken ?rep of Some e \<Rightarrow> (Inl e, w4) | None \<Rightarrow> (Inr ?p, w4)))"
      by (simp add: download_update_def andthen_def bnd_def act_eq raise_for_status_def lift_def
          throw_def ret_def file_truncate_def split: option.splits sum.splits)
    then have w1: "w1 = w4" by (auto split: sum.splits option.splits)
    from res have ok: "\<And>f. r = Inr f \<Longrightarrow> f = ?p \<and> r' = Inr ()"
      by (auto split: sum.splits option.splits)
    show ?thesis
      using evs w1 ok n by (intro exI[of _ "?pre @ evs"]) auto
  qed
qed

lemma verify_checksum_eq:
  assumes "files w p = Some bs"
  shows "verify_checksum en p ck w =
     ((case fault en (length (trace w)) of Some e \<Rightarrow> Inl e
        | None \<Rightarrow> Inr (JStr (sha256_hexdigest en bs) = ck)),
      w\<lparr>trace := trace w @ [OpenRead p]\<rparr>)"
  using assms
  by (simp add: verify_checksum_def andthen_def bnd_def act_eq file_read_def ret_def
      concat_read_blocks split: option.splits)

lemma finish_update_eq:
  "finish_update en cid (JObj kv) uid f w =
     (if truthy (dict_get kv ''reboot_required'' JNull)
      then ((case fault en (Suc (Suc (Suc (Suc (Suc (length (trace w))))))) of Some e \<Rightarrow> Inl e | None \<Rightarrow> Inr ()),
            w\<lparr>trace := trace w @
               [StatusPost uid (status_data ''installing'' (Some 75) None), Install f,
                StatusPost uid (status_data ''completed'' (Some 100) None),
                AckPost cid (ack_data ''completed'' None None None),
                Sleep 10, Subprocess [''sudo'', ''reboot''] False]\<rparr>)
      else (Inr (),
            w\<lparr>trace := trace w @
               [StatusPost uid (status_data ''installing'' (Some 75) None), Install f,
                StatusPost uid (status_data ''completed'' (Some 100) None),
                AckPost cid (ack_data ''completed'' None None None)]\<rparr>))"
  by (simp add: finish_update_def andthen_def bnd_def report_update_status_eq
      acknowledge_command_eq install_update_def mark_def py_get_def lift_def act_eq ret_def
      split: option.splits)

lemma handle_update_command_eq:
  "handle_update_command en cid (JObj kv) w =
     (case update_steps en cid (JObj kv) (dict_get kv ''update_id'' JNull)
             (dict_get kv ''download_url'' JNull) (dict_get kv ''checksum'' JNull) w of
        (Inl e, w1) \<Rightarrow>
          (Inr (), w1\<lparr>trace := trace w1 @
             [StatusPost (dict_get kv ''update_id'' JNull) (status_data ''failed'' None (Some (exn_text e))),
              AckPost cid (ack_data ''failed'' None None (Some (exn_text e)))]\<rparr>)
      | (Inr u, w1) \<Rightarrow> (Inr u, w1))"
  by (simp add: handle_update_command_def py_get_def lift_def bnd_def try_except_def andthen_def
      report_update_status_eq acknowledge_command_eq split: prod.splits sum.splits)

lemma reports_failed_snoc:
  "reports_failed uid cid (tr @ [StatusPost uid (status_data ''failed'' p e),
      AckPost cid (ack_data ''failed'' m r e')])"
  by (simp add: reports_failed_def status_data_def ack_data_def)

lemma handle_update_outcome:
  assumes run: "handle_update_command en cid (JObj kv) w = (r, w')"
  shows "r = Inr () \<and>
     (((\<forall>ev\<in>set (new_events w w'). \<not> is_install ev) \<and>
        reports_failed (dict_get kv ''update_id'' JNull) cid (trace w')) \<or>
      ((\<forall>f. Install f \<in> set (new_events w w') \<longrightarrow> f = update_file_path en (dict_get kv ''update_id'' JNull)) \<and>
       files w' (update_file_path en (dict_get kv ''update_id'' JNull)) =
          Some (concat (dl_chunks (download_reply en (Suc (Suc (length (trace w))))))) \<and>
       dict_get kv ''checksum'' JNull =
          JStr (sha256_hexdigest en (concat (dl_chunks (download_reply en (Suc (Suc (length (trace w))))))))))"
proof -
  let ?uid = "dict_get kv ''update_id'' JNull"
  let ?url = "dict_get kv ''download_url'' JNull"
  let ?ck = "dict_get kv ''checksum'' JNull"
  let ?p = "update_file_path en ?uid"
  let ?bs = "concat (dl_chunks (download_reply en (Suc (Suc (length (trace w))))))"
  let ?s0 = "StatusPost ?uid (status_data ''downloading'' (Some 0) None)"
  let ?w0 = "w\<lparr>trace := trace w @ [?s0]\<rparr>"
  obtain rd w1 where dl: "download_update en ?url ?uid ?w0 = (rd, w1)"
    by (cases "download_update en ?url ?uid ?w0") blast
  from download_update_effect[OF dl] obtain evs where evs:
    "trace w1 = trace w @ ?s0 # evs" "\<forall>ev\<in>set evs. \<not> is_install ev"
    and ok: "\<And>f. rd = Inr f \<Longrightarrow> f = ?p \<and> files w1 f = Some ?bs"
    by auto
  obtain rs ws where steps: "update_steps en cid (JObj kv) ?uid ?url ?ck w = (rs, ws)"
    by (cases "update_steps en cid (JObj kv) ?uid ?url ?ck w") blast
  have tail: "(rs, ws) = (case rd of Inl e \<Rightarrow> (Inl e, w1)
                 | Inr f \<Rightarrow> verify_and_install en cid (JObj kv) ?uid ?ck f w1)"
    using steps dl
    by (simp add: update_steps_def andthen_def bnd_def report_update_status_eq split: sum.splits)
  have main: "\<exists>evs2. trace ws = trace w @ ?s0 # evs @ evs2 \<and> files ws = files w1 \<and>
          ((\<exists>e. rs = Inl e \<and> (\<forall>ev\<in>set evs2. \<not> is_install ev)) \<or>
           ((\<forall>f. Install f \<in> set evs2 \<longrightarrow> f = ?p) \<and> files w1 ?p = Some ?bs \<and> ?ck = JStr (sha256_hexdigest en ?bs)))"
  proof (cases rd)
    case (Inl e)
    with tail show ?thesis using evs by (intro exI[of _ "[]"]) simp
  next
    case (Inr f)
    with ok have f: "f = ?p" and fl: "files w1 ?p = Some ?bs" by auto
    let ?w2 = "w1\<lparr>trace := trace w1 @ [StatusPost ?uid (status_data ''verifying'' (Some 50) None)]\<rparr>"
    have fl2: "files ?w2 ?p = Some ?bs" using fl by simp
    note v = verify_checksum_eq[OF fl2, of en ?ck]
    show ?thesis
    proof (cases "fault en (length (trace ?w2))")
      case (Some e)
      with tail Inr f v evs show ?thesis
        by (intro exI[of _ "[StatusPost ?uid (status_data ''verifying'' (Some 50) None), OpenRead ?p]"])
           (simp add: verify_and_install_def andthen_def bnd_def report_update_status_eq)
    next
      case None
      show ?thesis
      proof (cases "JStr (sha256_hexdigest en ?bs) = ?ck")
        case False
        with None tail Inr f v evs show ?thesis
          by (intro exI[of _ "[StatusPost ?uid (status_data ''verifying'' (Some 50) None), OpenRead ?p]"])
             (simp add: verify_and_install_def andthen_def bnd_def report_update_status_eq throw_def)
      next
        case True
        with None tail Inr f v have
          "(rs, ws) = finish_update en cid (JObj kv) ?uid ?p (?w2\<lparr>trace := trace ?w2 @ [OpenRead ?p]\<rparr>)"
          by (simp add: verify_and_install_def andthen_def bnd_def report_update_status_eq ret_def)
        then show ?thesis using evs fl True
          by (auto simp: finish_update_eq split: if_splits)
      qed
    qed
  qed
  then obtain evs2 where e2: "trace ws = trace w @ ?s0 # evs @ evs2" "files ws = files w1"
    "(\<exists>e. rs = Inl e \<and> (\<forall>ev\<in>set evs2. \<not> is_install ev)) \<or>
           ((\<forall>f. Install f \<in> set evs2 \<longrightarrow> f = ?p) \<and> files w1 ?p = Some ?bs \<and> ?ck = JStr (sha256_hexdigest en ?bs))"
    by blast
  from run steps have fin: "(r, w') = (case rs of
        Inl e \<Rightarrow> (Inr (), ws\<lparr>trace := trace ws @
             [StatusPost ?uid (status_data ''failed'' None (Some (exn_text e))),
              AckPost cid (ack_data ''failed'' None None (Some (exn_text e)))]\<rparr>)
      | Inr u \<Rightarrow> (Inr u, ws))"
    by (simp add: handle_update_command_eq split: sum.splits)
  show ?thesis
  proof (cases rs)
    case (Inl e)
    with fin have r: "r = Inr ()" and w': "w' = ws\<lparr>trace := trace ws @
             [StatusPost ?uid (status_data ''failed'' None (Some (exn_text e))),
              AckPost cid (ack_data ''failed'' None None (Some (exn_text e)))]\<rparr>" by simp_all
    have ne: "new_events w w' = ?s0 # evs @ evs2 @
             [StatusPost ?uid (status_data ''failed'' None (Some (exn_text e))),
              AckPost cid (ack_data ''failed'' None None (Some (exn_text e)))]"
      by (simp add: new_events_def w' e2(1))
    have rf: "reports_failed ?uid cid (trace w')"
      unfolding w' by (simp add: reports_failed_snoc)
    from e2(3) show ?thesis
    proof
      assume "\<exists>e. rs = Inl e \<and> (\<forall>ev\<in>set evs2. \<not> is_install ev)"
      with evs(2) r rf ne show ?thesis by auto
    next
      assume a: "(\<forall>f. Install f \<in> set evs2 \<longrightarrow> f = ?p) \<and> files w1 ?p = Some ?bs \<and> ?ck = JStr (sha256_hexdigest en ?bs)"
      have "\<And>f. Install f \<in> set (new_events w w') \<Longrightarrow> f = ?p"
        using a evs(2) by (auto simp: ne status_data_def)
      with a r e2(2) w' show ?thesis by simp
    qed
  next
    case (Inr u)
    with fin have r: "r = Inr ()" and w': "w' = ws" by simp_all
    from Inr e2(3) have a: "(\<forall>f. Install f \<in> set evs2 \<longrightarrow> f = ?p) \<and> files w1 ?p = Some ?bs \<and> ?ck = JStr (sha256_hexdigest en ?bs)"
      by auto
    have ne: "new_events w w' = ?s0 # evs @ evs2" by (simp add: new_events_def w' e2(1))
    have "\<And>f. Install f \<in> set (new_events w w') \<Longrightarrow> f = ?p"
      using a evs(2) by (auto simp: ne status_data_def)
    with a r e2(2) w' show ?thesis by simp
  qed
qed

lemmas run_defs = handle_update_command_eq update_steps_def verify_and_install_def finish_update_eq
  download_update_def andthen_def bnd_def act_eq lift_def ret_def throw_def raise_for_status_def
  http_error_def report_update_status_eq acknowledge_command_eq file_truncate_def file_append_def
  verify_checksum_def file_read_def concat_read_blocks total_size_of_def update_file_path_def
  path_join_def py_str_def dict_get_def artifact_env_def quiet_env_def fresh_world_def
  update_payload_def status_data_def ack_data_def

lemma mismatch_run:
  "handle_update_command (artifact_env NoHeader [[1, 2], [3]] ''aa'') (JStr ''c1'')
      (JObj (update_payload ''bb'')) fresh_world = (r, w') \<Longrightarrow>
   r = Inr () \<and> files w' ''~/.fleetd/updates/u1.bin'' = Some [1, 2, 3] \<and>
   trace w' =
     [StatusPost (JStr ''u1'') [(''status'', JStr ''downloading''), (''progress'', JInt 0)],
      MakeDirs ''~/.fleetd/updates'', DownloadGet (JStr ''https://fleet/u1''),
      OpenWrite ''~/.fleetd/updates/u1.bin'',
      Write ''~/.fleetd/updates/u1.bin'' [1, 2], Write ''~/.fleetd/updates/u1.bin'' [3],
      StatusPost (JStr ''u1'') [(''status'', JStr ''verifying''), (''progress'', JInt 50)],
      OpenRead ''~/.fleetd/updates/u1.bin'',
      StatusPost (JStr ''u1'') [(''status'', JStr ''failed''), (''error'', JStr ''Checksum verification failed'')],
      AckPost (JStr ''c1'') [(''status'', JStr ''failed''), (''error'', JStr ''Checksum verification failed'')]]"
  by (auto simp: run_defs)

text \<open>
  C1. Whatever the environment does, an update command returns without raising. If the
  SHA-256 hex digest of the artifact in storage differs from the expected checksum (or no
  artifact is there), no install step is among the actions of the job and its last two
  actions report the update and the command as \<open>failed\<close>. Conversely an install step only
  occurs when the file in storage holds exactly the bytes downloaded and their digest is
  the expected checksum: verification ran on the stored bytes before the install.
\<close>

theorem checksum_mismatch_fails_without_install:
  assumes "handle_update_command en command_id (JObj payload) w = (r, w')"
  shows "r = Inr () \<and>
     ((\<forall>bs. files w' (update_file_path en (dict_get payload ''update_id'' JNull)) = Some bs \<longrightarrow>
           JStr (sha256_hexdigest en bs) \<noteq> dict_get payload ''checksum'' JNull) \<longrightarrow>
        filter is_install (new_events w w') = [] \<and>
        reports_failed (dict_get payload ''update_id'' JNull) command_id (trace w')) \<and>
     (filter is_install (new_events w w') \<noteq> [] \<longrightarrow>
        files w' (update_file_path en (dict_get payload ''update_id'' JNull)) =
          Some (concat (dl_chunks (download_reply en (Suc (Suc (length (trace w))))))) \<and>
        dict_get payload ''checksum'' JNull =
          JStr (sha256_hexdigest en (concat (dl_chunks (download_reply en (Suc (Suc (length (trace w)))))))))"
  using handle_update_outcome[OF assms] by (auto simp: filter_empty_conv)

theorem checksum_mismatch_fails_without_install_witness:
  "fst (handle_update_command (artifact_env NoHeader [[1, 2], [3]] ''aa'') (JStr ''c1'')
         (JObj (update_payload ''bb'')) fresh_world) = Inr () \<and>
   filter is_install (new_events fresh_world
        (snd (handle_update_command (artifact_env NoHeader [[1, 2], [3]] ''aa'') (JStr ''c1'')
           (JObj (update_payload ''bb'')) fresh_world))) = [] \<and>
   reports_failed (JStr ''u1'') (JStr ''c1'')
     (trace (snd (handle_update_command (artifact_env NoHeader [[1, 2], [3]] ''aa'') (JStr ''c1'')
           (JObj (update_payload ''bb'')) fresh_world)))"
proof -
  let ?en = "artifact_env NoHeader [[1, 2], [3]] ''aa''"
  obtain r w' where run: "handle_update_command ?en (JStr ''c1'') (JObj (update_payload ''bb'')) fresh_world = (r, w')"
    by (cases "handle_update_command ?en (JStr ''c1'') (JObj (update_payload ''bb'')) fresh_world") blast
  from mismatch_run[OF run] have fl: "files w' ''~/.fleetd/updates/u1.bin'' = Some [1, 2, 3]" by simp
  have path: "update_file_path ?en (dict_get (update_payload ''bb'') ''update_id'' JNull) = ''~/.fleetd/updates/u1.bin''"
    by (simp add: update_file_path_def path_join_def py_str_def dict_get_def update_payload_def)
  have mm: "\<forall>bs. files w' (update_file_path ?en (dict_get (update_payload ''bb'') ''update_id'' JNull)) = Some bs \<longrightarrow>
           JStr (sha256_hexdigest ?en bs) \<noteq> dict_get (update_payload ''bb'') ''checksum'' JNull"
    by (simp add: path fl artifact_env_def dict_get_def update_payload_def)
  have uid: "dict_get (update_payload ''bb'') ''update_id'' JNull = JStr ''u1''"
    by (simp add: dict_get_def update_payload_def)
  from checksum_mismatch_fails_without_install[OF run] mm uid show ?thesis
    by (simp add: run)
qed

section \<open>Claims on the executor\<close>

text \<open>
  C4. An \<open>execute\<close> command whose script runs to completion (the call to the shell does
  not raise) ends with one acknowledgement, whose status is \<open>completed\<close> when the exit code
  is zero and \<open>failed\<close> otherwise, and which carries stdout, stderr and the exit code as its
  result in both cases.
\<close>

theorem execute_status_matches_exit_code:
  assumes "map_of command ''id'' = Some command_id"
    and "map_of command ''command'' = Some (JStr ''execute'')"
    and "dict_get command ''payload'' (JObj []) = JObj payload"
    and "fault en (Suc (Suc (length (trace w)))) = None"
  shows "execute_command en command w =
      (Inr (), w\<lparr>trace := trace w @
         [AckPost command_id [(''status'', JStr ''received'')],
          AckPost command_id [(''status'', JStr ''executing'')],
          Shell (dict_get payload ''script'' (JStr [])) (dict_get payload ''timeout'' (JInt 60)),
          AckPost command_id
            [(''status'', JStr (if returncode (shell_result en (Suc (Suc (length (trace w))))) = 0
                                then ''completed'' else ''failed'')),
             (''result'', run_result (shell_result en (Suc (Suc (length (trace w))))))]]\<rparr>)"
  using assms
  by (simp add: execute_command_def dispatch_def py_getitem_def py_get_def lift_def bnd_def
      andthen_def try_except_def acknowledge_command_eq act_eq ack_data_def run_result_def
      split: prod.splits)

theorem execute_status_matches_exit_code_witness:
  "trace (snd (execute_command failing_script_env
       [(''id'', JStr ''c7''), (''command'', JStr ''execute''),
        (''payload'', JObj [(''script'', JStr ''make test'')])] fresh_world)) =
     [AckPost (JStr ''c7'') [(''status'', JStr ''received'')],
      AckPost (JStr ''c7'') [(''status'', JStr ''executing'')],
      Shell (JStr ''make test'') (JInt 60),
      AckPost (JStr ''c7'')
        [(''status'', JStr ''failed''),
         (''result'', JObj [(''stdout'', JStr ''partial''), (''stderr'', JStr ''boom''),
                            (''returncode'', JInt 2)])]]"
  using execute_status_matches_exit_code
    [of "[(''id'', JStr ''c7''), (''command'', JStr ''execute''),
          (''payload'', JObj [(''script'', JStr ''make test'')])]"
        "JStr ''c7''" "[(''script'', JStr ''make test'')]" failing_script_env fresh_world]
  by (simp add: dict_get_def failing_script_env_def quiet_env_def fresh_world_def
      returncode_def run_result_def)

lemma poll_commands_returns: "fst (poll_commands en w) = Inr ()"
  by (simp add: poll_commands_def try_except_def ret_def split: prod.splits sum.splits)

lemma execute_command_keyed:
  assumes "map_of command ''id'' = Some cid" and "map_of command ''command'' = Some ct"
  shows "execute_command en command w =
     (case dispatch en cid ct (dict_get command ''payload'' (JObj [])) w of
        (Inl e, w1) \<Rightarrow> (Inr (), w1\<lparr>trace := trace w1 @ [failed_ack cid e]\<rparr>)
      | (Inr u, w1) \<Rightarrow> (Inr (), w1))"
  using assms
  by (simp add: execute_command_def py_getitem_def lift_def bnd_def try_except_def
      acknowledge_command_eq failed_ack_def split: prod.splits sum.splits)

lemma dispatch_collect_logs:
  "dispatch en cid (JStr ''collect_logs'') payload w =
     (case collect_logs_steps en cid payload (w\<lparr>trace := trace w @ [received_ack cid]\<rparr>) of
        (Inl e, w1) \<Rightarrow> (Inr (), w1\<lparr>trace := trace w1 @ [failed_ack cid e]\<rparr>)
      | (Inr u, w1) \<Rightarrow> (Inr u, w1))"
  by (simp add: dispatch_def andthen_def bnd_def acknowledge_command_eq collect_and_upload_logs_def
      try_except_def received_ack_def failed_ack_def split: prod.splits sum.splits)

lemma dispatch_update:
  "dispatch en cid (JStr ''update'') (JObj kv) w =
     (case update_steps en cid (JObj kv) (dict_get kv ''update_id'' JNull)
             (dict_get kv ''download_url'' JNull) (dict_get kv ''checksum'' JNull)
             (w\<lparr>trace := trace w @ [received_ack cid]\<rparr>) of
        (Inl e, w1) \<Rightarrow>
          (Inr (), w1\<lparr>trace := trace w1 @
             [failed_status (dict_get kv ''update_id'' JNull) e, failed_ack cid e]\<rparr>)
      | (Inr u, w1) \<Rightarrow> (Inr u, w1))"
  by (simp add: dispatch_def andthen_def bnd_def acknowledge_command_eq handle_update_command_eq
      received_ack_def failed_ack_def failed_status_def split: prod.splits sum.splits)

lemma dispatch_reboot_fails:
  assumes "fault en (Suc (Suc (length (trace w)))) = Some e"
  shows "dispatch en cid (JStr ''reboot'') payload w =
     (Inl e, w\<lparr>trace := trace w @
        [received_ack cid, AckPost cid (ack_data ''executing'' None None None),
         Subprocess [''sudo'', ''reboot''] True]\<rparr>)"
  using assms
  by (simp add: dispatch_def andthen_def bnd_def acknowledge_command_eq act_eq received_ack_def)

lemma dispatch_execute_fails:
  assumes "fault en (Suc (Suc (length (trace w)))) = Some e"
  shows "dispatch en cid (JStr ''execute'') (JObj kv) w =
     (Inl e, w\<lparr>trace := trace w @
        [received_ack cid, AckPost cid (ack_data ''executing'' None None None),
         Shell (dict_get kv ''script'' (JStr [])) (dict_get kv ''timeout'' (JInt 60))]\<rparr>)"
  using assms
  by (simp add: dispatch_def andthen_def bnd_def acknowledge_command_eq act_eq received_ack_def
      py_get_def lift_def)

lemma collect_logs_upload_fails:
  assumes "dict_get kv ''log_type'' (JStr ''system'') = JStr ''system''"
    and "fault en (Suc (length (trace w))) = None"
    and "fault en (Suc (Suc (length (trace w)))) = Some e"
  shows "collect_logs_steps en cid (JObj kv) (w\<lparr>trace := trace w @ [received_ack cid]\<rparr>) =
     (Inl e, w\<lparr>trace := trace w @
        [received_ack cid, Journalctl (dict_get kv ''since'' (JStr ''1h'')),
         LogsPost (check_output en (Suc (length (trace w))))]\<rparr>)"
  using assms
  by (simp add: collect_logs_steps_def bnd_def act_eq py_get_def lift_def ret_def)

text \<open>
  C7, as the code has it. \<open>command['id']\<close> and \<open>command['command']\<close> are read before the
  \<open>try\<close>: a command without one of them raises KeyError to the caller and nothing is
  acknowledged; \<open>poll_commands\<close>, the caller, never raises. When both keys are there,
  \<open>_execute_command\<close> returns, and every failure of a dispatch branch is followed by the
  acknowledgement \<open>failed\<close>, which carries the error text when the text is not empty: a
  failure that leaves the dispatch (an OS error of the reboot, a timeout of the script), a
  failure inside the log collection (an upload error), and a failure inside the update,
  which is reported as update status \<open>failed\<close> first.
\<close>

theorem dispatch_failures_are_acknowledged:
  "(map_of command ''id'' = None \<longrightarrow>
      execute_command en command w = (Inl (Exn ''KeyError'' ([CHR 0x27] @ ''id'' @ [CHR 0x27])), w)) \<and>
   (map_of command ''id'' = Some cid \<and> map_of command ''command'' = None \<longrightarrow>
      execute_command en command w = (Inl (Exn ''KeyError'' ([CHR 0x27] @ ''command'' @ [CHR 0x27])), w)) \<and>
   fst (poll_commands en w) = Inr () \<and>
   (map_of command ''id'' = Some cid \<and> map_of command ''command'' = Some ct \<longrightarrow>
      fst (execute_command en command w) = Inr () \<and>
      (\<forall>e w1. dispatch en cid ct (dict_get command ''payload'' (JObj [])) w = (Inl e, w1) \<longrightarrow>
         snd (execute_command en command w) = w1\<lparr>trace := trace w1 @ [failed_ack cid e]\<rparr>) \<and>
      (\<forall>e w1. ct = JStr ''collect_logs'' \<and>
         collect_logs_steps en cid (dict_get command ''payload'' (JObj []))
            (w\<lparr>trace := trace w @ [received_ack cid]\<rparr>) = (Inl e, w1) \<longrightarrow>
         snd (execute_command en command w) = w1\<lparr>trace := trace w1 @ [failed_ack cid e]\<rparr>) \<and>
      (\<forall>kv e w1. ct = JStr ''update'' \<and> dict_get command ''payload'' (JObj []) = JObj kv \<and>
         update_steps en cid (JObj kv) (dict_get kv ''update_id'' JNull)
            (dict_get kv ''download_url'' JNull) (dict_get kv ''checksum'' JNull)
            (w\<lparr>trace := trace w @ [received_ack cid]\<rparr>) = (Inl e, w1) \<longrightarrow>
         snd (execute_command en command w) =
           w1\<lparr>trace := trace w1 @ [failed_status (dict_get kv ''update_id'' JNull) e, failed_ack cid e]\<rparr>) \<and>
      (\<forall>e. ct = JStr ''reboot'' \<and> fault en (Suc (Suc (length (trace w)))) = Some e \<longrightarrow>
         trace (snd (execute_command en command w)) = trace w @
           [received_ack cid, AckPost cid (ack_data ''executing'' None None None),
            Subprocess [''sudo'', ''reboot''] True, failed_ack cid e]) \<and>
      (\<forall>kv e. ct = JStr ''execute'' \<and> dict_get command ''payload'' (JObj []) = JObj kv \<and>
         fault en (Suc (Suc (length (trace w)))) = Some e \<longrightarrow>
         trace (snd (execute_command en command w)) = trace w @
           [received_ack cid, AckPost cid (ack_data ''executing'' None None None),
            Shell (dict_get kv ''script'' (JStr [])) (dict_get kv ''timeout'' (JInt 60)),
            failed_ack cid e]) \<and>
      (\<forall>kv e. ct = JStr ''collect_logs'' \<and> dict_get command ''payload'' (JObj []) = JObj kv \<and>
         dict_get kv ''log_type'' (JStr ''system'') = JStr ''system'' \<and>
         fault en (Suc (length (trace w))) = None \<and>
         fault en (Suc (Suc (length (trace w)))) = Some e \<longrightarrow>
         trace (snd (execute_command en command w)) = trace w @
           [received_ack cid, Journalctl (dict_get kv ''since'' (JStr ''1h'')),
            LogsPost (check_output en (Suc (length (trace w)))), failed_ack cid e]))"
proof (intro conjI impI allI)
  assume "map_of command ''id'' = None"
  then show "execute_command en command w = (Inl (Exn ''KeyError'' ([CHR 0x27] @ ''id'' @ [CHR 0x27])), w)"
    by (simp add: execute_command_def py_getitem_def lift_def bnd_def)
next
  assume "map_of command ''id'' = Some cid \<and> map_of command ''command'' = None"
  then show "execute_command en command w = (Inl (Exn ''KeyError'' ([CHR 0x27] @ ''command'' @ [CHR 0x27])), w)"
    by (simp add: execute_command_def py_getitem_def lift_def bnd_def)
next
  show "fst (poll_commands en w) = Inr ()" by (rule poll_commands_returns)
next
  assume k: "map_of command ''id'' = Some cid \<and> map_of command ''command'' = Some ct"
  then show "fst (execute_command en command w) = Inr ()"
    by (simp add: execute_command_keyed split: prod.splits sum.splits)
next
  fix e w1
  assume k: "map_of command ''id'' = Some cid \<and> map_of command ''command'' = Some ct"
    and d: "dispatch en cid ct (dict_get command ''payload'' (JObj [])) w = (Inl e, w1)"
  then show "snd (execute_command en command w) = w1\<lparr>trace := trace w1 @ [failed_ack cid e]\<rparr>"
    by (simp add: execute_command_keyed)
next
  fix e w1
  assume k: "map_of command ''id'' = Some cid \<and> map_of command ''command'' = Some ct"
    and d: "ct = JStr ''collect_logs'' \<and>
         collect_logs_steps en cid (dict_get command ''payload'' (JObj []))
            (w\<lparr>trace := trace w @ [received_ack cid]\<rparr>) = (Inl e, w1)"
  then show "snd (execute_command en command w) = w1\<lparr>trace := trace w1 @ [failed_ack cid e]\<rparr>"
    by (simp add: execute_command_keyed dispatch_collect_logs)
next
  fix kv e w1
  assume k: "map_of command ''id'' = Some cid \<and> map_of command ''command'' = Some ct"
    and d: "ct = JStr ''update'' \<and> dict_get command ''payload'' (JObj []) = JObj kv \<and>
         update_steps en cid (JObj kv) (dict_get kv ''update_id'' JNull)
            (dict_get kv ''download_url'' JNull) (dict_get kv ''checksum'' JNull)
            (w\<lparr>trace := trace w @ [received_ack cid]\<rparr>) = (Inl e, w1)"
  then show "snd (execute_command en command w) =
           w1\<lparr>trace := trace w1 @ [failed_status (dict_get kv ''update_id'' JNull) e, failed_ack cid e]\<rparr>"
    by (simp add: execute_command_keyed dispatch_update)
next
  fix e
  assume k: "map_of command ''id'' = Some cid \<and> map_of command ''command'' = Some ct"
    and d: "ct = JStr ''reboot'' \<and> fault en (Suc (Suc (length (trace w)))) = Some e"
  then show "trace (snd (execute_command en command w)) = trace w @
           [received_ack cid, AckPost cid (ack_data ''executing'' None None None),
            Subprocess [''sudo'', ''reboot''] True, failed_ack cid e]"
    by (simp add: execute_command_keyed dispatch_reboot_fails)
next
  fix kv e
  assume k: "map_of command ''id'' = Some cid \<and> map_of command ''command'' = Some ct"
    and d: "ct = JStr ''execute'' \<and> dict_get command ''payload'' (JObj []) = JObj kv \<and>
         fault en (Suc (Suc (length (trace w)))) = Some e"
  then show "trace (snd (execute_command en command w)) = trace w @
           [received_ack cid, AckPost cid (ack_data ''executing'' None None None),
            Shell (dict_get kv ''script'' (JStr [])) (dict_get kv ''timeout'' (JInt 60)),
            failed_ack cid e]"
    by (simp add: execute_command_keyed dispatch_execute_fails)
next
  fix kv e
  assume k: "map_of command ''id'' = Some cid \<and> map_of command ''command'' = Some ct"
    and d: "ct = JStr ''collect_logs'' \<and> dict_get command ''payload'' (JObj []) = JObj kv \<and>
         dict_get kv ''log_type'' (JStr ''system'') = JStr ''system'' \<and>
         fault en (Suc (length (trace w))) = None \<and>
         fault en (Suc (Suc (length (trace w)))) = Some e"
  then show "trace (snd (execute_command en command w)) = trace w @
           [received_ack cid, Journalctl (dict_get kv ''since'' (JStr ''1h'')),
            LogsPost (check_output en (Suc (length (trace w)))), failed_ack cid e]"
    by (simp add: execute_command_keyed dispatch_collect_logs collect_logs_upload_fails)
qed

theorem dispatch_failures_are_acknowledged_witness:
  "trace (snd (execute_command upload_fails_env
       [(''id'', JStr ''c9''), (''command'', JStr ''collect_logs'')] fresh_world)) =
     [AckPost (JStr ''c9'') [(''status'', JStr ''received'')],
      Journalctl (JStr ''1h''),
      LogsPost ''Nov 04 boot'',
      AckPost (JStr ''c9'') [(''status'', JStr ''failed''), (''error'', JStr ''upload failed'')]] \<and>
   trace (snd (execute_command reboot_fails_env
       [(''id'', JStr ''c9''), (''command'', JStr ''reboot'')] fresh_world)) =
     [AckPost (JStr ''c9'') [(''status'', JStr ''received'')],
      AckPost (JStr ''c9'') [(''status'', JStr ''executing'')],
      Subprocess [''sudo'', ''reboot''] True,
      AckPost (JStr ''c9'') [(''status'', JStr ''failed''), (''error'', JStr ''reboot failed'')]]"
proof
  show "trace (snd (execute_command upload_fails_env
       [(''id'', JStr ''c9''), (''command'', JStr ''collect_logs'')] fresh_world)) =
     [AckPost (JStr ''c9'') [(''status'', JStr ''received'')],
      Journalctl (JStr ''1h''),
      LogsPost ''Nov 04 boot'',
      AckPost (JStr ''c9'') [(''status'', JStr ''failed''), (''error'', JStr ''upload failed'')]]"
    using dispatch_failures_are_acknowledged
      [of "[(''id'', JStr ''c9''), (''command'', JStr ''collect_logs'')]" upload_fails_env
          fresh_world "JStr ''c9''" "JStr ''collect_logs''"]
    by (simp add: dict_get_def upload_fails_env_def quiet_env_def fresh_world_def
        received_ack_def failed_ack_def ack_data_def)
  show "trace (snd (execute_command reboot_fails_env
       [(''id'', JStr ''c9''), (''command'', JStr ''reboot'')] fresh_world)) =
     [AckPost (JStr ''c9'') [(''status'', JStr ''received'')],
      AckPost (JStr ''c9'') [(''status'', JStr ''executing'')],
      Subprocess [''sudo'', ''reboot''] True,
      AckPost (JStr ''c9'') [(''status'', JStr ''failed''), (''error'', JStr ''reboot failed'')]]"
    using dispatch_failures_are_acknowledged
      [of "[(''id'', JStr ''c9''), (''command'', JStr ''reboot'')]" reboot_fails_env
          fresh_world "JStr ''c9''" "JStr ''reboot''"]
    by (simp add: dict_get_def reboot_fails_env_def quiet_env_def fresh_world_def
        received_ack_def failed_ack_def ack_data_def)
qed

text \<open>
  C7 as the spec states it fails: a command that has no \<open>id\<close> makes \<open>_execute_command\<close>
  raise KeyError to its caller, and no acknowledgement is attempted.
\<close>

theorem execute_command_missing_id_raises:
  "execute_command quiet_env [(''command'', JStr ''reboot'')] fresh_world =
     (Inl (Exn ''KeyError'' [CHR 0x27, CHR ''i'', CHR ''d'', CHR 0x27]), fresh_world)"
  by (simp add: execute_command_def py_getitem_def lift_def bnd_def)

section \<open>Claims on checksum comparison and progress reports\<close>

text \<open>
  C2, as the code has it. \<open>_verify_checksum\<close> compares the digest with the expected checksum
  by \<open>==\<close>: it returns True exactly when the expected checksum is the very string that
  \<open>hexdigest()\<close> returns. An expected checksum that differs from it in letter case only is
  rejected.
\<close>

theorem checksum_compared_exactly:
  assumes "files w file_path = Some bs"
    and "fault en (length (trace w)) = None"
  shows "fst (verify_checksum en file_path expected_checksum w) =
           Inr (expected_checksum = JStr (sha256_hexdigest en bs))"
  using assms by (auto simp: verify_checksum_eq)

theorem checksum_compared_exactly_witness:
  "fst (verify_checksum empty_artifact_env ''~/.fleetd/updates/u1.bin''
          (JStr ''e3b0c44298fc1c149afbf4c8996fb92427ae41e4649b934ca495991b7852b855'') stored_empty)
     = Inr True"
  using checksum_compared_exactly
    [of stored_empty "''~/.fleetd/updates/u1.bin''" "[]" empty_artifact_env
        "JStr ''e3b0c44298fc1c149afbf4c8996fb92427ae41e4649b934ca495991b7852b855''"]
  by (simp add: empty_artifact_env_def artifact_env_def quiet_env_def stored_empty_def
      fresh_world_def)

text \<open>
  C2 as the spec states it fails: for the empty artifact, the expected checksum written in
  upper case equals the digest up to letter case, and verification returns False.
\<close>

theorem uppercase_checksum_rejected:
  "same_ignoring_case ''E3B0C44298FC1C149AFBF4C8996FB92427AE41E4649B934CA495991B7852B855''
      (sha256_hexdigest empty_artifact_env []) \<and>
   fst (verify_checksum empty_artifact_env ''~/.fleetd/updates/u1.bin''
          (JStr ''E3B0C44298FC1C149AFBF4C8996FB92427AE41E4649B934CA495991B7852B855'') stored_empty)
     = Inr False"
  by (simp add: same_ignoring_case_def lower_char_def empty_artifact_env_def artifact_env_def
      quiet_env_def stored_empty_def fresh_world_def verify_checksum_eq)

lemmas float_defs = py_progress_def binary64_def float_times_def float_trunc_def pack64_def
  float_exponent_def scaled_round_def pow2_le_def round_half_even_def bitlen.simps

text \<open>
  C5 fails on the code. The server advertises a Content-Length of 10 and the body that
  \<open>iter_content\<close> yields has 20 bytes (a compressed transfer, for which \<open>requests\<close> yields the
  decoded bytes): the download reports progress 100, and the next report, \<open>verifying\<close>, is 50.
\<close>

theorem progress_drops_after_oversized_body:
  "reported_progress (trace (snd (handle_update_command
       (artifact_env (IntHeader 10) [replicate 20 0] ''aa'') (JStr ''c1'')
       (JObj (update_payload ''aa'')) fresh_world))) = [0, 100, 50, 75, 100]"
  by (simp add: run_defs float_defs reported_progress_def)

text \<open>
  C6, as the code has it. With an advertised total size above zero, \<open>_download_update\<close>
  reports progress once for every chunk it receives, so a download that returns has made
  as many progress reports as it received chunks; with no advertised size, or one that is
  not positive, it makes none.
\<close>

theorem one_report_per_chunk:
  assumes "download_update en url update_id w = (Inr f, w')"
    and "total_size_of (dl_content_length (download_reply en (Suc (length (trace w))))) = Inr n"
  shows "length (filter is_status (new_events w w')) =
           (if 0 < n then length (dl_chunks (download_reply en (Suc (length (trace w))))) else 0)"
proof -
  from download_update_effect[OF assms(1)] obtain evs where
    "trace w' = trace w @ evs"
    "length (filter is_status evs) =
       (if 0 < n then length (dl_chunks (download_reply en (Suc (length (trace w))))) else 0)"
    using assms(2) by auto
  then show ?thesis by (simp add: new_events_def)
qed

theorem one_report_per_chunk_witness:
  "length (filter is_status (new_events fresh_world
      (snd (download_update (artifact_env (IntHeader 3) [[1], [2], [3]] ''aa'')
         (JStr ''https://fleet/u1'') (JStr ''u1'') fresh_world)))) = 3"
proof -
  let ?en = "artifact_env (IntHeader 3) [[1], [2], [3]] ''aa''"
  obtain w' where run: "download_update ?en (JStr ''https://fleet/u1'') (JStr ''u1'') fresh_world =
      (Inr ''~/.fleetd/updates/u1.bin'', w')"
    by (simp add: run_defs float_defs)
  have "total_size_of (dl_content_length (download_reply ?en (Suc (length (trace fresh_world))))) = Inr 3"
    by (simp add: total_size_of_def artifact_env_def quiet_env_def)
  from one_report_per_chunk[OF run this]
  have "length (filter is_status (new_events fresh_world w')) = 3"
    by (simp add: artifact_env_def quiet_env_def)
  then show ?thesis by (simp add: run)
qed

text \<open>
  C6 as the spec states it fails: a download of two chunks with an advertised size makes
  two progress reports, which is not fewer than the number of chunks.
\<close>

theorem two_chunks_two_reports:
  "length (filter is_status (new_events fresh_world
      (snd (download_update (artifact_env (IntHeader 2) [[1], [2]] ''aa'')
         (JStr ''https://fleet/u1'') (JStr ''u1'') fresh_world)))) = 2 \<and>
   length (dl_chunks (download_reply (artifact_env (IntHeader 2) [[1], [2]] ''aa'') 1)) = 2"
  by (simp add: run_defs float_defs new_events_def)

section \<open>Claims on enrollment and on the wake-up signal\<close>

lemma enroll_conflict:
  assumes "fault en (length (trace w)) = None"
    and "status_code en (length (trace w)) = 409"
  shows "enroll en w =
           (Inr True, w\<lparr>trace := trace w @ [EnrollPost (enrollment_data en (config w))]\<rparr>)"
  using assms
  by (simp add: enroll_def try_except_def bnd_def get_world_def act_eq ret_def)

lemma launch_eq:
  "launch en w =
     (Inr True, w\<lparr>trace := trace w @ [SystemPut (system_info en), SpawnThreads], running := True\<rparr>)"
  by (simp add: launch_def push_system_info_def andthen_def bnd_def try_except_def act_eq
      raise_for_status_def throw_def ret_def modify_def mark_def split: option.splits)

lemma load_credentials_keeps_store:
  assumes "load_credentials en w = (r, w1)"
  shows "credentials_file w1 = credentials_file w"
proof (cases "credentials_file w")
  case None
  with assms show ?thesis by (simp add: load_credentials_def bnd_def get_world_def ret_def)
next
  case (Some st)
  with assms show ?thesis
    by (cases st)
       (auto simp: load_credentials_def bnd_def get_world_def ret_def try_except_def andthen_def
          act_eq throw_def lift_def modify_def py_subscript_def py_getitem_def
          split: option.splits sum.splits json.splits)
qed

text \<open>
  C8. When loading the saved credentials fails and the enrollment endpoint answers 409,
  \<open>enroll\<close> returns True after the enrollment request alone, and \<open>start\<close> goes on to push the
  system information and start the duties. Nothing was written to the credential store:
  the file is as it was before \<open>start\<close>.
\<close>

theorem conflict_is_success_and_persists_nothing:
  assumes "load_credentials en w = (Inr False, w1)"
    and "fault en (length (trace w1)) = None"
    and "status_code en (length (trace w1)) = 409"
  shows "enroll en w1 =
           (Inr True, w1\<lparr>trace := trace w1 @ [EnrollPost (enrollment_data en (config w1))]\<rparr>) \<and>
         start en w =
           (Inr True, w1\<lparr>trace := trace w1 @
               [EnrollPost (enrollment_data en (config w1)), SystemPut (system_info en), SpawnThreads],
             running := True\<rparr>) \<and>
         credentials_file w1 = credentials_file w"
  using assms load_credentials_keeps_store[OF assms(1)]
  by (simp add: enroll_conflict start_def bnd_def launch_eq)

theorem conflict_is_success_and_persists_nothing_witness:
  "fst (start conflict_env fresh_world) = Inr True \<and>
   credentials_file (snd (start conflict_env fresh_world)) = None \<and>
   running (snd (start conflict_env fresh_world)) \<and>
   trace (snd (start conflict_env fresh_world)) =
     [EnrollPost (enrollment_data conflict_env (config fresh_world)), SystemPut (JObj []), SpawnThreads]"
proof -
  have l: "load_credentials conflict_env fresh_world = (Inr False, fresh_world)"
    by (simp add: load_credentials_def bnd_def get_world_def ret_def fresh_world_def)
  have f: "fault conflict_env (length (trace fresh_world)) = None"
    by (simp add: conflict_env_def quiet_env_def)
  have s: "status_code conflict_env (length (trace fresh_world)) = 409"
    by (simp add: conflict_env_def quiet_env_def fresh_world_def)
  from conflict_is_success_and_persists_nothing[OF l f s] show ?thesis
    by (simp add: fresh_world_def conflict_env_def quiet_env_def)
qed

text \<open>
  C10. On the 409 branch \<open>enroll\<close> returns True and changes nothing but the trace:
  \<open>device_id\<close>, the device token of the configuration, the session headers and the
  credential file are as before. So the agent that \<open>main\<close> builds, on a device without a
  credential file, reaches the start of its duties with \<open>device_id\<close> None, no device token
  and no authentication header.
\<close>

theorem conflict_leaves_agent_without_identity:
  assumes "fault en (length (trace w)) = None"
    and "status_code en (length (trace w)) = 409"
    and "credentials_file w = None"
  shows "enroll en w =
           (Inr True, w\<lparr>trace := trace w @ [EnrollPost (enrollment_data en (config w))]\<rparr>) \<and>
         fst (start en (agent_init en (main_config token heartbeat telemetry) w)) = Inr True \<and>
         running (snd (start en (agent_init en (main_config token heartbeat telemetry) w))) \<and>
         device_id (snd (start en (agent_init en (main_config token heartbeat telemetry) w))) = JNull \<and>
         device_token (config (snd (start en (agent_init en (main_config token heartbeat telemetry) w)))) = JNull \<and>
         session_headers (snd (start en (agent_init en (main_config token heartbeat telemetry) w))) = Map.empty \<and>
         credentials_file (snd (start en (agent_init en (main_config token heartbeat telemetry) w))) = None"
proof -
  let ?a = "agent_init en (main_config token heartbeat telemetry) w"
  have t: "trace ?a = trace w" and c: "credentials_file ?a = None"
    using assms(3) by (simp_all add: agent_init_def)
  have l: "load_credentials en ?a = (Inr False, ?a)"
    using c by (simp add: load_credentials_def bnd_def get_world_def ret_def)
  have e: "enroll en ?a =
      (Inr True, ?a\<lparr>trace := trace ?a @ [EnrollPost (enrollment_data en (config ?a))]\<rparr>)"
    using assms(1,2) t by (intro enroll_conflict) simp_all
  have s: "start en ?a = (Inr True, ?a\<lparr>trace := trace ?a @
               [EnrollPost (enrollment_data en (config ?a)), SystemPut (system_info en), SpawnThreads],
             running := True\<rparr>)"
    by (simp add: start_def bnd_def l e launch_eq)
  show ?thesis
    using assms(1,2) c by (simp add: s enroll_conflict) (simp add: agent_init_def main_config_def)
qed

theorem conflict_leaves_agent_without_identity_witness:
  "device_id (snd (start conflict_env (agent_init conflict_env (main_config (Some ''tok-1'') 60 30) fresh_world))) = JNull \<and>
   device_token (config (snd (start conflict_env (agent_init conflict_env (main_config (Some ''tok-1'') 60 30) fresh_world)))) = JNull \<and>
   running (snd (start conflict_env (agent_init conflict_env (main_config (Some ''tok-1'') 60 30) fresh_world)))"
proof -
  have f: "fault conflict_env (length (trace fresh_world)) = None"
    by (simp add: conflict_env_def quiet_env_def)
  have s: "status_code conflict_env (length (trace fresh_world)) = 409"
    by (simp add: conflict_env_def quiet_env_def fresh_world_def)
  have c: "credentials_file fresh_world = None" by (simp add: fresh_world_def)
  from conflict_leaves_agent_without_identity[OF f s c, of "Some ''tok-1''" 60 30] show ?thesis
    by simp
qed

lemma send_heartbeat_pending:
  assumes "fault en (length (trace w)) = None"
    and "\<not> http_error en (length (trace w))"
    and "json_body en (length (trace w)) = Inr (JObj kv)"
    and "dict_get kv ''pending_commands'' (JInt 0) = JInt i"
    and "0 < i"
  shows "send_heartbeat en w =
     (Inr True, w\<lparr>trace := trace w @ [HeartbeatPost],
                 command_queue := command_queue w @ [''poll_commands'']\<rparr>)"
  using assms
  by (simp add: send_heartbeat_def try_except_def bnd_def andthen_def act_eq raise_for_status_def
      lift_def py_get_def py_positive_def queue_put_def modify_def ret_def)

lemma kq_ret: "keeps_queue (ret x)"
  by (simp add: keeps_queue_def ret_def)

lemma kq_throw: "keeps_queue (throw e)"
  by (simp add: keeps_queue_def throw_def)

lemma kq_lift: "keeps_queue (lift r)"
  by (simp add: keeps_queue_def lift_def)

lemma kq_act: "keeps_queue (act en ev)"
  by (simp add: keeps_queue_def act_eq)

lemma kq_mark: "keeps_queue (mark ev)"
  by (simp add: keeps_queue_def mark_def)

lemma kq_bnd: "keeps_queue m \<Longrightarrow> (\<And>x. keeps_queue (f x)) \<Longrightarrow> keeps_queue (bnd m f)"
  unfolding keeps_queue_def bnd_def
  by (auto split: prod.splits sum.splits) (metis snd_conv)+

lemma kq_andthen: "keeps_queue m \<Longrightarrow> keeps_queue k \<Longrightarrow> keeps_queue (andthen m k)"
  by (simp add: andthen_def kq_bnd)

lemma kq_try: "keeps_queue m \<Longrightarrow> (\<And>e. keeps_queue (h e)) \<Longrightarrow> keeps_queue (try_except m h)"
  unfolding keeps_queue_def try_except_def
  by (auto split: prod.splits sum.splits) (metis snd_conv)+

lemma kq_if: "keeps_queue a \<Longrightarrow> keeps_queue b \<Longrightarrow> keeps_queue (if c then a else b)"
  by simp

lemma kq_case_option:
  "keeps_queue a \<Longrightarrow> (\<And>x. keeps_queue (f x)) \<Longrightarrow> keeps_queue (case v of None \<Rightarrow> a | Some x \<Rightarrow> f x)"
  by (cases v) simp_all

lemma kq_files:
  "keeps_queue (file_truncate p)" "keeps_queue (file_append p c)" "keeps_queue (file_read p)"
  by (simp_all add: keeps_queue_def file_truncate_def file_append_def file_read_def split: option.splits)

lemma kq_raise_for_status: "keeps_queue (raise_for_status en n)"
  by (simp add: raise_for_status_def kq_ret kq_throw)

lemma kq_acknowledge: "keeps_queue (acknowledge_command en c s m r e)"
  by (simp add: keeps_queue_def acknowledge_command_eq)

lemma kq_report: "keeps_queue (report_update_status en u s p e)"
  by (simp add: keeps_queue_def report_update_status_eq)

lemmas kq_intros = kq_ret kq_throw kq_lift kq_act kq_mark kq_bnd kq_andthen kq_try kq_if
  kq_case_option kq_files kq_raise_for_status kq_acknowledge kq_report

lemma kq_write_chunks: "keeps_queue (write_chunks en u p t d chunks)"
  by (induction chunks arbitrary: d) (auto intro!: kq_intros)

lemma kq_download_update: "keeps_queue (download_update en url u)"
  unfolding download_update_def by (intro kq_intros kq_write_chunks)

lemma kq_verify_checksum: "keeps_queue (verify_checksum en f c)"
  unfolding verify_checksum_def by (intro kq_intros)

lemma kq_finish_update: "keeps_queue (finish_update en c p u f)"
  unfolding finish_update_def install_update_def by (intro kq_intros)

lemma kq_verify_and_install: "keeps_queue (verify_and_install en c p u k f)"
  unfolding verify_and_install_def by (intro kq_intros kq_verify_checksum kq_finish_update)

lemma kq_handle_update_command: "keeps_queue (handle_update_command en c p)"
  unfolding handle_update_command_def update_steps_def
  by (intro kq_intros kq_download_update kq_verify_and_install)

lemma kq_collect_and_upload_logs: "keeps_queue (collect_and_upload_logs en c p)"
  unfolding collect_and_upload_logs_def collect_logs_steps_def by (intro kq_intros)

lemma kq_dispatch: "keeps_queue (dispatch en c t p)"
  unfolding dispatch_def
  by (intro kq_intros kq_handle_update_command kq_collect_and_upload_logs)

lemma kq_execute_command: "keeps_queue (execute_command en command)"
  unfolding execute_command_def by (intro kq_intros kq_dispatch)

lemma kq_execute_all: "keeps_queue (execute_all en cs)"
proof (induction cs)
  case Nil
  show ?case by (simp add: kq_ret)
next
  case (Cons c cs)
  have "keeps_queue (case c of JObj d \<Rightarrow> execute_command en d
          | _ \<Rightarrow> throw (Exn ''TypeError'' (py_type c @ '' cannot be indexed by str'')))"
    by (cases c) (simp_all add: kq_throw kq_execute_command)
  with Cons show ?case by (simp add: kq_andthen)
qed

lemma kq_poll_commands: "keeps_queue (poll_commands en)"
  unfolding poll_commands_def by (intro kq_intros kq_execute_all)

lemma command_loop_step_takes_one:
  "command_queue (snd (command_loop_step en w)) = tl (command_queue w)"
proof -
  let ?w1 = "w\<lparr>command_queue := tl (command_queue w)\<rparr>"
  have q: "command_queue (snd (poll_commands en ?w1)) = tl (command_queue w)"
    using kq_poll_commands[of en] by (simp add: keeps_queue_def)
  have "fst (poll_commands en ?w1) = Inr ()" by (rule poll_commands_returns)
  then have "command_loop_step en w = (Inr (), snd (poll_commands en ?w1))"
    by (simp add: command_loop_step_def try_except_def andthen_def bnd_def queue_get_def
        modify_def ret_def split: prod.splits sum.splits)
  with q show ?thesis by simp
qed

text \<open>
  C9, as the code has it. The wake-up signal is an unbounded queue. A heartbeat whose
  reply reports pending commands appends one entry and returns, whatever the queue holds.
  One pass of the command loop, whatever the server answers and whatever the commands it
  executes do, leaves the queue without its first entry and otherwise as it was: it
  removes at most one entry. So \<open>k\<close> such heartbeats while the command loop is busy leave
  \<open>k\<close> more entries pending.
\<close>

theorem wake_queue_is_unbounded:
  assumes "\<forall>n. fault en n = None \<and> \<not> http_error en n \<and>
              (\<exists>kv i. json_body en n = Inr (JObj kv) \<and>
                 dict_get kv ''pending_commands'' (JInt 0) = JInt i \<and> 0 < i)"
  shows "command_queue (heartbeats en k w) = command_queue w @ replicate k ''poll_commands'' \<and>
         command_queue (snd (command_loop_step en2 w)) = tl (command_queue w)"
proof
  show "command_queue (heartbeats en k w) = command_queue w @ replicate k ''poll_commands''"
  proof (induction k arbitrary: w)
    case 0
    show ?case by simp
  next
    case (Suc k)
    from assms obtain kv i where
      "fault en (length (trace w)) = None" "\<not> http_error en (length (trace w))"
      "json_body en (length (trace w)) = Inr (JObj kv)"
      "dict_get kv ''pending_commands'' (JInt 0) = JInt i" "0 < i"
      by blast
    then have "send_heartbeat en w =
       (Inr True, w\<lparr>trace := trace w @ [HeartbeatPost],
                 command_queue := command_queue w @ [''poll_commands'']\<rparr>)"
      by (rule send_heartbeat_pending)
    then show ?case by (simp add: Suc.IH replicate_app_Cons_same)
  qed
  show "command_queue (snd (command_loop_step en2 w)) = tl (command_queue w)"
    by (rule command_loop_step_takes_one)
qed

theorem wake_queue_is_unbounded_witness:
  "command_queue (heartbeats pending_env 3 fresh_world) =
     [''poll_commands'', ''poll_commands'', ''poll_commands''] \<and>
   command_queue (snd (command_loop_step pending_env (heartbeats pending_env 3 fresh_world))) =
     [''poll_commands'', ''poll_commands'']"
proof -
  have h: "\<forall>n. fault pending_env n = None \<and> \<not> http_error pending_env n \<and>
              (\<exists>kv i. json_body pending_env n = Inr (JObj kv) \<and>
                 dict_get kv ''pending_commands'' (JInt 0) = JInt i \<and> 0 < i)"
    by (simp add: pending_env_def quiet_env_def http_error_def dict_get_def)
  have a: "command_queue (heartbeats pending_env 3 fresh_world) =
     [''poll_commands'', ''poll_commands'', ''poll_commands'']"
    using wake_queue_is_unbounded[OF h, where k = 3 and w = fresh_world]
    by (simp add: fresh_world_def numeral_3_eq_3)
  have b: "command_queue (snd (command_loop_step pending_env (heartbeats pending_env 3 fresh_world))) =
     tl (command_queue (heartbeats pending_env 3 fresh_world))"
    using wake_queue_is_unbounded
      [OF h, where k = 0 and w = "heartbeats pending_env 3 fresh_world" and ?en2.0 = pending_env]
    by simp
  from a b show ?thesis by simp
qed

text \<open>
  C9 as the spec states it fails: two heartbeats, each answered with pending commands, and
  no pass of the command loop in between leave two notifications in the queue.
\<close>

theorem two_heartbeats_two_pending_wakes:
  "command_queue (heartbeats pending_env 2 fresh_world) = [''poll_commands'', ''poll_commands'']"
  by (simp add: numeral_2_eq_2 send_heartbeat_def try_except_def bnd_def andthen_def act_eq
      raise_for_status_def http_error_def lift_def py_get_def dict_get_def py_positive_def
      queue_put_def modify_def ret_def pending_env_def quiet_env_def fresh_world_def)

end
